theory Spec2Isabelle
  imports Main
begin

section \<open>Machine integers of the C++ source\<close>

text \<open>
  The library computes with \<^verbatim>\<open>int\<close> (32 bits, two's complement) and with
  \<^verbatim>\<open>hsize_t\<close> and \<^verbatim>\<open>size_t\<close> (64 bits, unsigned). Values are HOL
  integers and naturals here; every conversion between the two C++ types is written out
  with its wrap-around, so that a statement about the code never silently assumes that a
  value fits.
\<close>

definition to_int :: "int \<Rightarrow> int" where
  \<comment> \<open>conversion to \<^verbatim>\<open>int\<close>: the value modulo \<open>2^32\<close>, read as two's complement\<close>
  "to_int x = (x + 2147483648) mod 4294967296 - 2147483648"

definition to_hsize :: "int \<Rightarrow> nat" where
  \<comment> \<open>conversion to \<^verbatim>\<open>hsize_t\<close>: the value modulo \<open>2^64\<close>\<close>
  "to_hsize x = nat (x mod 18446744073709551616)"

definition CPH_5_MAX_DIMS :: nat where
  "CPH_5_MAX_DIMS = 32"

section \<open>Outcomes of a call\<close>

text \<open>
  A call of the source either returns, or leaves by an exception of the storage engine
  (the state reached at the throw is kept: C++ does not roll it back), or runs into
  undefined behaviour (a write past a stack array, a read past a buffer).
\<close>

datatype 's outcome = Returned 's | Raised 's | Undefined

section \<open>The storage engine\<close>

text \<open>
  The storage engine (HDF5) is an external collaborator. Its contract, as far as the
  library uses it: a dataset has current extents, maximum extents (\<open>None\<close> is
  unlimited), a fill value, and one element per coordinate; a dataspace is scalar or
  simple, a simple one carrying a hyperslab selection (start and count per dimension);
  a read or write moves the selected elements in row-major order.
\<close>

record 'a H5DataSet =
  ds_dims :: "nat list"
  ds_maxdims :: "nat option list"
  ds_chunked :: bool
  ds_fill :: 'a
  ds_data :: "nat list \<Rightarrow> 'a"

type_synonym 'a storage = "nat \<Rightarrow> 'a H5DataSet option"

datatype DataSpace =
    ScalarSpace
  | SimpleSpace (sp_dims: "nat list") (sp_start: "nat list") (sp_count: "nat list")

definition getSpace :: "'a H5DataSet \<Rightarrow> DataSpace" where
  "getSpace ds =
     (if ds_dims ds = [] then ScalarSpace
      else SimpleSpace (ds_dims ds) (replicate (length (ds_dims ds)) 0) (ds_dims ds))"

definition selectHyperslab :: "nat list \<Rightarrow> nat list \<Rightarrow> DataSpace \<Rightarrow> DataSpace option" where
  \<comment> \<open>\<^verbatim>\<open>selectHyperslab(H5S_SELECT_SET, count, start)\<close>: the engine reads as many
      entries of each array as the dataspace has dimensions; \<open>None\<close> is its exception\<close>
  "selectHyperslab count start sp =
     (case sp of
        ScalarSpace \<Rightarrow> None
      | SimpleSpace d _ _ \<Rightarrow> Some (SimpleSpace d (take (length d) start) (take (length d) count)))"

fun getSelectNpoints :: "DataSpace \<Rightarrow> nat" where
  "getSelectNpoints ScalarSpace = 1"
| "getSelectNpoints (SimpleSpace d s c) = prod_list c"

fun select_coords :: "nat list \<Rightarrow> nat list \<Rightarrow> nat list list" where
  "select_coords [] [] = [[]]"
| "select_coords (s # ss) (c # cs) =
     concat (map (\<lambda>i. map ((#) i) (select_coords ss cs)) [s ..< s + c])"
| "select_coords _ _ = []"

fun selected :: "DataSpace \<Rightarrow> nat list list" where
  "selected ScalarSpace = [[]]"
| "selected (SimpleSpace d s c) = select_coords s c"

fun select_valid :: "DataSpace \<Rightarrow> bool" where
  "select_valid ScalarSpace = True"
| "select_valid (SimpleSpace d s c) =
     (length s = length d \<and> length c = length d \<and>
      list_all (\<lambda>(x, y, z). y + z \<le> x) (zip d (zip s c)))"

definition DataSet_write ::
  "'a list \<Rightarrow> DataSpace \<Rightarrow> DataSpace \<Rightarrow> 'a H5DataSet \<Rightarrow> 'a H5DataSet outcome" where
  \<comment> \<open>\<^verbatim>\<open>DataSet::write(buf, type, memspace, filespace)\<close>\<close>
  "DataSet_write buf mem file ds =
     (if getSelectNpoints mem \<noteq> getSelectNpoints file \<or> \<not> select_valid file then Raised ds
      else if length buf < getSelectNpoints file then Undefined
      else Returned (ds\<lparr>ds_data := fold (\<lambda>(c, v) d. d(c := v)) (zip (selected file) buf) (ds_data ds)\<rparr>))"

definition DataSet_read ::
  "DataSpace \<Rightarrow> DataSpace \<Rightarrow> 'a H5DataSet \<Rightarrow> ('a list) outcome" where
  \<comment> \<open>\<^verbatim>\<open>DataSet::read(buf, type, memspace, filespace)\<close>: the elements stored into
      the buffer, in order; an exception stores nothing\<close>
  "DataSet_read mem file ds =
     (if getSelectNpoints mem \<noteq> getSelectNpoints file \<or> \<not> select_valid file then Raised []
      else Returned (map (ds_data ds) (selected file)))"

definition in_extent :: "nat list \<Rightarrow> nat list \<Rightarrow> bool" where
  "in_extent dims c = (length c = length dims \<and> list_all (\<lambda>(x, d). x < d) (zip c dims))"

definition DataSet_extend :: "nat list \<Rightarrow> 'a H5DataSet \<Rightarrow> 'a H5DataSet outcome" where
  \<comment> \<open>\<^verbatim>\<open>DataSet::extend(size)\<close>: the engine reads one entry per dimension of the
      dataset; it refuses a dataset that is not chunked and a size above a maximum\<close>
  "DataSet_extend newdims ds =
     (let n = length (ds_dims ds); new = take n newdims in
      if length newdims < n then Undefined
      else if \<not> ds_chunked ds \<or> length (ds_maxdims ds) \<noteq> n \<or>
              \<not> list_all (\<lambda>(x, m). case m of None \<Rightarrow> True | Some b \<Rightarrow> x \<le> b) (zip new (ds_maxdims ds))
      then Raised ds
      else Returned (ds\<lparr>ds_dims := new,
                        ds_data := (\<lambda>c. if in_extent (ds_dims ds) c then ds_data ds c else ds_fill ds)\<rparr>))"

section \<open>CPH5IOFacility (cph5utilities.h)\<close>

record IOFacility =
  mpDataSet :: "nat option"
  mType :: nat
  numDims :: int
  mMaxDims :: "int list"
  mIndices :: "int list"
  mMemspace :: DataSpace
  mFilespace :: DataSpace

definition IOFacility_new :: IOFacility where
  \<comment> \<open>the default constructor: no dataset, \<open>numDims = -1\<close>; a default dataspace is scalar\<close>
  "IOFacility_new =
     \<lparr>mpDataSet = None, mType = 0, numDims = -1, mMaxDims = [], mIndices = [],
      mMemspace = ScalarSpace, mFilespace = ScalarSpace\<rparr>"

definition init :: "nat option \<Rightarrow> nat \<Rightarrow> int \<Rightarrow> nat list \<Rightarrow> IOFacility \<Rightarrow> IOFacility outcome" where
  \<comment> \<open>\<open>mMaxDims\<close> is a vector of \<^verbatim>\<open>int\<close>: each \<^verbatim>\<open>hsize_t\<close> extent is converted;
      reading \<open>maxDims[i]\<close> past the array handed in is undefined\<close>
  "init pDataSet type nDims maxDims f =
     (if length maxDims < nat nDims then Undefined
      else Returned (f\<lparr>mpDataSet := pDataSet, mType := type, numDims := nDims,
                       mMaxDims := map (\<lambda>d. to_int (int d)) (take (nat nDims) maxDims),
                       mIndices := []\<rparr>))"

definition addIndex :: "int \<Rightarrow> IOFacility \<Rightarrow> IOFacility" where
  \<comment> \<open>the index is pushed first; the test for too many indices that follows has an empty
      body (\<^verbatim>\<open>// BIG PROBLEM, TOO MANY INDICES\<close>)\<close>
  "addIndex ind f =
     (if numDims f = -1 then f
      else let f' = f\<lparr>mIndices := mIndices f @ [ind]\<rparr> in
           if int (length (mIndices f')) > int (to_hsize (numDims f')) then f' else f')"

definition getIndices :: "IOFacility \<Rightarrow> int list" where
  "getIndices f = mIndices f"

definition setIndices :: "int list \<Rightarrow> IOFacility \<Rightarrow> IOFacility" where
  "setIndices indices f = f\<lparr>mIndices := indices\<rparr>"

text \<open>
  The two stack arrays of \<^verbatim>\<open>setupSpaces\<close> hold \<^verbatim>\<open>CPH_5_MAX_DIMS\<close> entries of
  eight bytes. \<^verbatim>\<open>memset(offsets, 0, CPH_5_MAX_DIMS*4)\<close> clears 128 bytes, the first
  16 entries; the others, and all of \<^verbatim>\<open>extents\<close>, keep what the stack held, here
  the parameter \<open>junk\<close>.
\<close>

definition stack_offsets :: "(nat \<Rightarrow> nat) \<Rightarrow> nat list" where
  "stack_offsets junk = map (\<lambda>i. if i < (CPH_5_MAX_DIMS * 4) div 8 then 0 else junk i) [0 ..< CPH_5_MAX_DIMS]"

definition stack_extents :: "(nat \<Rightarrow> nat) \<Rightarrow> nat list" where
  "stack_extents junk = map (\<lambda>i. junk (CPH_5_MAX_DIMS + i)) [0 ..< CPH_5_MAX_DIMS]"

definition select_spaces ::
  "nat list \<Rightarrow> nat list \<Rightarrow> 'a storage \<Rightarrow> IOFacility \<Rightarrow> IOFacility outcome" where
  \<comment> \<open>the common tail of \<^verbatim>\<open>setupSpaces\<close> and \<^verbatim>\<open>setupSpacesOffset\<close>\<close>
  "select_spaces extents offsets st f =
     (case mpDataSet f of
        None \<Rightarrow> Returned f
      | Some h \<Rightarrow>
          (case st h of
             None \<Rightarrow> Undefined
           | Some ds \<Rightarrow>
               let f1 = f\<lparr>mFilespace := getSpace ds, mMemspace := ScalarSpace\<rparr> in
               if numDims f \<noteq> 0 then
                 (case selectHyperslab extents offsets (mFilespace f1) of
                    None \<Rightarrow> Raised f1
                  | Some sp \<Rightarrow>
                      if numDims f < 0 then Raised (f1\<lparr>mFilespace := sp\<rparr>)
                      else Returned (f1\<lparr>mFilespace := sp,
                                        mMemspace := SimpleSpace (take (nat (numDims f)) extents)
                                                       (replicate (nat (numDims f)) 0)
                                                       (take (nat (numDims f)) extents)\<rparr>))
               else Returned f1))"

definition setupSpaces :: "(nat \<Rightarrow> nat) \<Rightarrow> 'a storage \<Rightarrow> IOFacility \<Rightarrow> IOFacility outcome" where
  "setupSpaces junk st f =
     (if numDims f = -1 then Returned f
      else
        let k = length (mIndices f); n = nat (numDims f) in
        if CPH_5_MAX_DIMS < k \<or> CPH_5_MAX_DIMS < n \<or> length (mMaxDims f) < n then Undefined
        else
          let offsets = map to_hsize (mIndices f) @ drop k (stack_offsets junk);
              extents = map (\<lambda>i. if i < k then 1 else to_hsize (mMaxDims f ! i)) [0 ..< n]
                          @ drop n (stack_extents junk)
          in select_spaces extents offsets st f)"

definition setupSpacesOffset ::
  "(nat \<Rightarrow> nat) \<Rightarrow> int \<Rightarrow> 'a storage \<Rightarrow> IOFacility \<Rightarrow> IOFacility outcome" where
  "setupSpacesOffset junk offset st f =
     (if numDims f = -1 then Returned f
      else
        let k = length (mIndices f); n = nat (numDims f) in
        if CPH_5_MAX_DIMS \<le> k \<or> CPH_5_MAX_DIMS < n \<or> length (mMaxDims f) < n then Undefined
        else
          let offsets = map to_hsize (mIndices f) @ [to_hsize offset]
                          @ drop (Suc k) (stack_offsets junk);
              extents = map (\<lambda>i. if i < k then 1
                                  else if i = k then to_hsize (to_int (mMaxDims f ! i - offset))
                                  else to_hsize (mMaxDims f ! i)) [0 ..< n]
                          @ drop n (stack_extents junk)
          in select_spaces extents offsets st f)"

definition IOFacility_write ::
  "(nat \<Rightarrow> nat) \<Rightarrow> 'a list \<Rightarrow> IOFacility \<times> 'a storage \<Rightarrow> (IOFacility \<times> 'a storage) outcome" where
  "IOFacility_write junk src w =
     (case w of (f, st) \<Rightarrow>
        (case mpDataSet f of
           None \<Rightarrow> Returned (f, st)
         | Some h \<Rightarrow>
             (case setupSpaces junk st f of
                Undefined \<Rightarrow> Undefined
              | Raised f' \<Rightarrow> Raised (f', st)
              | Returned f' \<Rightarrow>
                  (case st h of
                     None \<Rightarrow> Undefined
                   | Some ds \<Rightarrow>
                       (case DataSet_write src (mMemspace f') (mFilespace f') ds of
                          Undefined \<Rightarrow> Undefined
                        | Raised ds' \<Rightarrow> Raised (f', st(h \<mapsto> ds'))
                        | Returned ds' \<Rightarrow> Returned (f', st(h \<mapsto> ds')))))))"

definition writeWithOffset ::
  "(nat \<Rightarrow> nat) \<Rightarrow> int \<Rightarrow> 'a list \<Rightarrow> IOFacility \<times> 'a storage \<Rightarrow> (IOFacility \<times> 'a storage) outcome" where
  "writeWithOffset junk offset src w =
     (case w of (f, st) \<Rightarrow>
        (case mpDataSet f of
           None \<Rightarrow> Returned (f, st)
         | Some h \<Rightarrow>
             (case setupSpacesOffset junk offset st f of
                Undefined \<Rightarrow> Undefined
              | Raised f' \<Rightarrow> Raised (f', st)
              | Returned f' \<Rightarrow>
                  (case st h of
                     None \<Rightarrow> Undefined
                   | Some ds \<Rightarrow>
                       (case DataSet_write src (mMemspace f') (mFilespace f') ds of
                          Undefined \<Rightarrow> Undefined
                        | Raised ds' \<Rightarrow> Raised (f', st(h \<mapsto> ds'))
                        | Returned ds' \<Rightarrow> Returned (f', st(h \<mapsto> ds')))))))"

definition IOFacility_read ::
  "(nat \<Rightarrow> nat) \<Rightarrow> IOFacility \<times> 'a storage \<Rightarrow> ('a list \<times> IOFacility \<times> 'a storage) outcome" where
  \<comment> \<open>the first component is what the call stored at the start of \<^verbatim>\<open>dst\<close>: nothing
      when it returned before touching the buffer\<close>
  "IOFacility_read junk w =
     (case w of (f, st) \<Rightarrow>
        (case mpDataSet f of
           None \<Rightarrow> Returned ([], f, st)
         | Some h \<Rightarrow>
             (case setupSpaces junk st f of
                Undefined \<Rightarrow> Undefined
              | Raised f' \<Rightarrow> Raised ([], f', st)
              | Returned f' \<Rightarrow>
                  (case st h of
                     None \<Rightarrow> Undefined
                   | Some ds \<Rightarrow>
                       (case DataSet_read (mMemspace f') (mFilespace f') ds of
                          Undefined \<Rightarrow> Undefined
                        | Raised xs \<Rightarrow> Raised (xs, f', st)
                        | Returned xs \<Rightarrow> Returned (xs, f', st))))))"

definition getNumLowerElements ::
  "(nat \<Rightarrow> nat) \<Rightarrow> 'a storage \<Rightarrow> IOFacility \<Rightarrow> (nat \<times> IOFacility) outcome" where
  "getNumLowerElements junk st f =
     (case setupSpaces junk st f of
        Undefined \<Rightarrow> Undefined
      | Raised f' \<Rightarrow> Raised (0, f')
      | Returned f' \<Rightarrow> Returned (getSelectNpoints (mFilespace f') mod 18446744073709551616, f'))"

definition getSizeLowerElements ::
  "(nat \<Rightarrow> nat) \<Rightarrow> 'a storage \<Rightarrow> IOFacility \<Rightarrow> (nat \<times> IOFacility) outcome" where
  "getSizeLowerElements junk st f =
     (case setupSpaces junk st f of
        Undefined \<Rightarrow> Undefined
      | Raised f' \<Rightarrow> Raised (0, f')
      | Returned f' \<Rightarrow>
          Returned ((getSelectNpoints (mMemspace f') * mType f') mod 18446744073709551616, f'))"

section \<open>CPH5Dataset of rank 1 and above (cph5dataset.h)\<close>

text \<open>
  The record is the root-order object of a dataset of rank \<open>nDims \<ge> 1\<close>: the one whose
  \<^verbatim>\<open>mpGroupParent\<close> is set and whose \<^verbatim>\<open>mpDimParent\<close> is null, which owns the
  dataset handle, the extents and the facility. The accessor of rank \<open>nDims - l\<close> below it
  holds nothing of its own but the pointer to its parent; a call on it that recurses
  upwards (\<^verbatim>\<open>extendIR\<close>, \<^verbatim>\<open>getDimSizeIR\<close>) reaches the root with
  \<open>dimsBelow = l\<close>, so such a call is the root's function at \<open>l\<close>. The two extent arrays
  have \<open>nDims + 1\<close> entries. Elements are opaque values (the specialisation for an
  element type that is not a record).
\<close>

record Dataset =
  nDims :: nat
  mType_ds :: nat
  mDims :: "nat list"
  mMaxDims_ds :: "nat list"
  mpDataSet_ds :: "nat option"
  mDimsSet :: bool
  mpIOFacility :: IOFacility

definition H5S_UNLIMITED :: nat where
  "H5S_UNLIMITED = 18446744073709551615"

definition setDimensions :: "nat list \<Rightarrow> nat list \<Rightarrow> Dataset \<Rightarrow> Dataset" where
  "setDimensions dims maxDims d =
     d\<lparr>mDims := take (nDims d) dims @ drop (nDims d) (mDims d),
       mMaxDims_ds := take (nDims d) maxDims @ drop (nDims d) (mMaxDims_ds d),
       mDimsSet := True\<rparr>"

definition getDimSizeIR :: "nat \<Rightarrow> Dataset \<Rightarrow> int" where
  "getDimSizeIR dimsBelow d = (if \<not> mDimsSet d then 0 else to_int (int (mDims d ! dimsBelow)))"

definition getMaxDimSizeIR :: "nat \<Rightarrow> Dataset \<Rightarrow> int" where
  "getMaxDimSizeIR dimsBelow d = (if \<not> mDimsSet d then 0 else to_int (int (mMaxDims_ds d ! dimsBelow)))"

definition getDimSize :: "Dataset \<Rightarrow> int" where
  "getDimSize d = getDimSizeIR 0 d"

definition getDims :: "Dataset \<Rightarrow> int list" where
  "getDims d = map (\<lambda>i. getDimSizeIR i d) [0 ..< nDims d]"

definition getMaxDims :: "Dataset \<Rightarrow> int list" where
  "getMaxDims d = map (\<lambda>i. getMaxDimSizeIR i d) [0 ..< nDims d]"

definition getTotalNumElements :: "Dataset \<Rightarrow> int" where
  \<comment> \<open>the product is taken in \<^verbatim>\<open>int\<close>; the class exists for \<open>nDims \<ge> 1\<close> only, so
      \<open>dims[0]\<close> is there\<close>
  "getTotalNumElements d =
     (case getDims d of [] \<Rightarrow> 0 | x # xs \<Rightarrow> foldl (\<lambda>r y. to_int (r * y)) x xs)"

definition extendIR ::
  "nat \<Rightarrow> int \<Rightarrow> Dataset \<times> 'a storage \<Rightarrow> (Dataset \<times> 'a storage) outcome" where
  "extendIR dimsBelow numTimes w =
     (case w of (d, st) \<Rightarrow>
        if \<not> mDimsSet d then Returned (d, st)
        else if length (mDims d) \<le> dimsBelow then Undefined
        else
          let newDims = (mDims d)[dimsBelow := to_hsize (int (mDims d ! dimsBelow) + numTimes)] in
          (case mpDataSet_ds d of
             Some h \<Rightarrow>
               (case st h of
                  None \<Rightarrow> Undefined
                | Some ds \<Rightarrow>
                    (case DataSet_extend newDims ds of
                       Undefined \<Rightarrow> Undefined
                     | Raised ds' \<Rightarrow> Raised (d, st(h \<mapsto> ds'))
                     | Returned ds' \<Rightarrow> Returned (d\<lparr>mDims := newDims\<rparr>, st(h \<mapsto> ds'))))
           | None \<Rightarrow> Returned (d, st)))"

definition extend :: "int \<Rightarrow> Dataset \<times> 'a storage \<Rightarrow> (Dataset \<times> 'a storage) outcome" where
  "extend numTimes w = extendIR 0 numTimes w"

definition index_root :: "int \<Rightarrow> Dataset \<Rightarrow> Dataset outcome" where
  \<comment> \<open>\<^verbatim>\<open>operator[]\<close> of the root-order object: the facility is initialised anew, then
      the index is added\<close>
  "index_root ind d =
     (case init (mpDataSet_ds d) (mType_ds d) (int (nDims d)) (mDims d) (mpIOFacility d) of
        Undefined \<Rightarrow> Undefined
      | Raised f \<Rightarrow> Raised (d\<lparr>mpIOFacility := f\<rparr>)
      | Returned f \<Rightarrow> Returned (d\<lparr>mpIOFacility := addIndex ind f\<rparr>))"

definition write_below ::
  "(nat \<Rightarrow> nat) \<Rightarrow> 'a list \<Rightarrow> Dataset \<times> 'a storage \<Rightarrow> (Dataset \<times> 'a storage) outcome" where
  \<comment> \<open>\<^verbatim>\<open>write\<close> of an accessor below the root: no \<^verbatim>\<open>init\<close>, the shared facility
      writes with the indices it holds\<close>
  "write_below junk src w =
     (case w of (d, st) \<Rightarrow>
        map_outcome (\<lambda>(f, st'). (d\<lparr>mpIOFacility := f\<rparr>, st'))
          (IOFacility_write junk src (mpIOFacility d, st)))"

definition extendOnceAndWrite ::
  "(nat \<Rightarrow> nat) \<Rightarrow> 'a list \<Rightarrow> Dataset \<times> 'a storage \<Rightarrow> (Dataset \<times> 'a storage) outcome" where
  "extendOnceAndWrite junk src w =
     (case extendIR 0 1 w of
        Undefined \<Rightarrow> Undefined
      | Raised w' \<Rightarrow> Raised w'
      | Returned (d, st) \<Rightarrow>
          (let dim = getDimSize d in
           case index_root (to_int (dim - 1)) d of
             Undefined \<Rightarrow> Undefined
           | Raised d' \<Rightarrow> Raised (d', st)
           | Returned d' \<Rightarrow> write_below junk src (d', st)))"

definition readRaw ::
  "(nat \<Rightarrow> nat) \<Rightarrow> Dataset \<times> 'a storage \<Rightarrow> ('a list \<times> Dataset \<times> 'a storage) outcome" where
  \<comment> \<open>of the root-order object: \<^verbatim>\<open>init\<close>, then the facility's \<^verbatim>\<open>read\<close>\<close>
  "readRaw junk w =
     (case w of (d, st) \<Rightarrow>
        (case init (mpDataSet_ds d) (mType_ds d) (int (nDims d)) (mDims d) (mpIOFacility d) of
           Undefined \<Rightarrow> Undefined
         | Raised f \<Rightarrow> Raised ([], d\<lparr>mpIOFacility := f\<rparr>, st)
         | Returned f \<Rightarrow>
             map_outcome (\<lambda>(xs, f', st'). (xs, d\<lparr>mpIOFacility := f'\<rparr>, st'))
               (IOFacility_read junk (f, st))))"

definition writeRaw ::
  "(nat \<Rightarrow> nat) \<Rightarrow> 'a list \<Rightarrow> Dataset \<times> 'a storage \<Rightarrow> (Dataset \<times> 'a storage) outcome" where
  "writeRaw junk src w =
     (case w of (d, st) \<Rightarrow>
        (case init (mpDataSet_ds d) (mType_ds d) (int (nDims d)) (mDims d) (mpIOFacility d) of
           Undefined \<Rightarrow> Undefined
         | Raised f \<Rightarrow> Raised (d\<lparr>mpIOFacility := f\<rparr>, st)
         | Returned f \<Rightarrow>
             map_outcome (\<lambda>(f', st'). (d\<lparr>mpIOFacility := f'\<rparr>, st'))
               (IOFacility_write junk src (f, st))))"

fun resizeToR ::
  "nat \<Rightarrow> nat list \<Rightarrow> Dataset \<times> 'a storage \<Rightarrow> (Dataset \<times> 'a storage) outcome" where
  \<comment> \<open>\<open>resizeToR l dims\<close> is the call on the accessor \<open>l\<close> levels below the root with the
      rest of the array; the accessor of rank 0 returns at once\<close>
  "resizeToR l [] w = Returned w"
| "resizeToR l (x # xs) w =
     (let dim = getDimSizeIR l (fst w) in
      if to_hsize dim < x then
        (case extendIR l (to_int (int (to_hsize (int x - int (to_hsize dim))))) w of
           Undefined \<Rightarrow> Undefined
         | Raised w' \<Rightarrow> Raised w'
         | Returned w' \<Rightarrow> resizeToR (Suc l) xs w')
      else resizeToR (Suc l) xs w)"

definition dimsMatch :: "Dataset \<Rightarrow> Dataset \<Rightarrow> bool" where
  \<comment> \<open>the test of \<^verbatim>\<open>operator=\<close>: this dataset's maximum extents against the
      \<^emph>\<open>maximum\<close> extents the other reports (as \<^verbatim>\<open>int\<close>, converted back)\<close>
  "dimsMatch this rhs =
     list_all (\<lambda>i. to_hsize (getMaxDims rhs ! i) \<le> mMaxDims_ds this ! i) [0 ..< nDims this]"

definition assign ::
  "(nat \<Rightarrow> nat) \<Rightarrow> (nat \<Rightarrow> 'a) \<Rightarrow> Dataset \<times> Dataset \<times> 'a storage
     \<Rightarrow> (Dataset \<times> Dataset \<times> 'a storage) outcome" where
  \<comment> \<open>\<^verbatim>\<open>this->operator=(rhs)\<close> on two distinct root-order objects of one rank. The
      buffer has \<open>size\<close> bytes, room for \<open>cap\<close> elements of this dataset's type, and
      holds what the heap held (\<open>heap\<close>) where the read did not store; a negative size
      makes \<^verbatim>\<open>new\<close> throw; a read that stores more than \<open>size\<close> bytes is undefined\<close>
  "assign junk heap w =
     (case w of (this, rhs, st) \<Rightarrow>
        if \<not> dimsMatch this rhs then Returned (this, rhs, st)
        else
          let otherDimsH = map to_hsize (getDims rhs);
              resized =
                (if getTotalNumElements this < getTotalNumElements rhs
                 then map_outcome Some (resizeToR 0 otherDimsH (this, st))
                 else if getTotalNumElements rhs < getTotalNumElements this then Returned None
                 else Returned (Some (this, st)))
          in
          (case resized of
             Undefined \<Rightarrow> Undefined
           | Raised None \<Rightarrow> Raised (this, rhs, st)
           | Raised (Some (this1, st1)) \<Rightarrow> Raised (this1, rhs, st1)
           | Returned None \<Rightarrow> Returned (this, rhs, st)
           | Returned (Some (this1, st1)) \<Rightarrow>
               let size = to_int (int (to_hsize (getTotalNumElements rhs) * mType_ds this1
                                        mod 18446744073709551616)) in
               if size < 0 then Raised (this1, rhs, st1)
               else
                 let cap = nat size div mType_ds this1 in
                 (case readRaw junk (rhs, st1) of
                    Undefined \<Rightarrow> Undefined
                  | Raised (xs, rhs', st2) \<Rightarrow> Raised (this1, rhs', st2)
                  | Returned (xs, rhs', st2) \<Rightarrow>
                      if nat size < length xs * mType_ds rhs then Undefined
                      else
                        let buf = xs @ map heap [length xs ..< cap] in
                        (case writeRaw junk buf (this1, st2) of
                           Undefined \<Rightarrow> Undefined
                         | Raised (this2, st3) \<Rightarrow> Raised (this2, rhs', st3)
                         | Returned (this2, st3) \<Rightarrow> Returned (this2, rhs', st3)))))"

section \<open>Concrete datasets\<close>

text \<open>
  A dataset of rank 2 with extents 2 by 3 and an unlimited first dimension, as an extend
  needs it; and two datasets of rank 2 for a whole-dataset assignment: the destination
  2 by 5 (at most 4 by 5), the source 4 by 3.
\<close>

definition extend_d :: Dataset where
  "extend_d = \<lparr>nDims = 2, mType_ds = 4, mDims = [2, 3, 0], mMaxDims_ds = [H5S_UNLIMITED, 3, 0],
     mpDataSet_ds = Some 0, mDimsSet = True, mpIOFacility = IOFacility_new\<rparr>"

definition extend_ds :: "nat H5DataSet" where
  "extend_ds = \<lparr>ds_dims = [2, 3], ds_maxdims = [None, Some 3], ds_chunked = True,
      ds_fill = 0, ds_data = (\<lambda>c. 7)\<rparr>"

definition assign_this :: Dataset where
  "assign_this = \<lparr>nDims = 2, mType_ds = 4, mDims = [2, 5, 0], mMaxDims_ds = [4, 5, 0],
     mpDataSet_ds = Some 0, mDimsSet = True, mpIOFacility = IOFacility_new\<rparr>"

definition assign_rhs :: Dataset where
  "assign_rhs = \<lparr>nDims = 2, mType_ds = 4, mDims = [4, 3, 0], mMaxDims_ds = [4, 3, 0],
     mpDataSet_ds = Some 1, mDimsSet = True, mpIOFacility = IOFacility_new\<rparr>"

definition assign_this_ds :: "nat H5DataSet" where
  "assign_this_ds = \<lparr>ds_dims = [2, 5], ds_maxdims = [Some 4, Some 5], ds_chunked = True,
      ds_fill = 0, ds_data = (\<lambda>c. 7)\<rparr>"

definition assign_rhs_ds :: "nat H5DataSet" where
  "assign_rhs_ds = \<lparr>ds_dims = [4, 3], ds_maxdims = [Some 4, Some 3],
      ds_chunked = False, ds_fill = 0, ds_data = (\<lambda>c. 10 * hd c + hd (tl c))\<rparr>"

definition assign_store :: "nat storage" where
  "assign_store = [0 \<mapsto> assign_this_ds, 1 \<mapsto> assign_rhs_ds]"

section \<open>Datatypes of the storage engine\<close>

datatype H5T_class =
    H5T_INTEGER | H5T_FLOAT | H5T_TIME | H5T_STRING | H5T_BITFIELD | H5T_OPAQUE
  | H5T_COMPOUND | H5T_REFERENCE | H5T_ENUM | H5T_VLEN | H5T_ARRAY

datatype H5T_sign = H5T_SGN_ERROR | H5T_SGN_NONE | H5T_SGN_2

text \<open>
  A datatype of the engine: an atomic type with its class, sign and size in bytes; a
  compound type with its size and its members (name, byte offset, type) in the order they
  were inserted; an array type with its base type and extents.
\<close>

datatype H5DataType =
    AtomType H5T_class H5T_sign nat
  | CompType nat "(string \<times> nat \<times> H5DataType) list"
  | ArrayType H5DataType "nat list"

fun H5_getSize :: "H5DataType \<Rightarrow> nat" where
  "H5_getSize (AtomType c s n) = n"
| "H5_getSize (CompType n ms) = n"
| "H5_getSize (ArrayType b ds) = H5_getSize b * prod_list ds"

fun H5_getClass :: "H5DataType \<Rightarrow> H5T_class" where
  "H5_getClass (AtomType c s n) = c"
| "H5_getClass (CompType n ms) = H5T_COMPOUND"
| "H5_getClass (ArrayType b ds) = H5T_ARRAY"

fun H5Tget_sign :: "H5DataType \<Rightarrow> H5T_sign" where
  "H5Tget_sign (AtomType c s n) = (if c = H5T_INTEGER then s else H5T_SGN_ERROR)"
| "H5Tget_sign _ = H5T_SGN_ERROR"

definition CompType_create :: "nat \<Rightarrow> H5DataType option" where
  \<comment> \<open>\<^verbatim>\<open>H5::CompType(size)\<close>; the engine refuses the size 0 with an exception\<close>
  "CompType_create n = (if n = 0 then None else Some (CompType n []))"

fun insertMember :: "string \<Rightarrow> nat \<Rightarrow> H5DataType \<Rightarrow> H5DataType \<Rightarrow> H5DataType option" where
  \<comment> \<open>\<^verbatim>\<open>insertMember(name, offset, type)\<close>: appended after the members already there;
      the engine refuses a name in use, a member that ends past the compound's size and a
      member that overlaps another\<close>
  "insertMember name offset t (CompType n ms) =
     (if list_ex (\<lambda>(name', offset', t'). name' = name) ms
         \<or> n < offset + H5_getSize t
         \<or> list_ex (\<lambda>(name', offset', t'). offset < offset' + H5_getSize t' \<and>
                                          offset' < offset + H5_getSize t) ms
      then None
      else Some (CompType n (ms @ [(name, offset, t)])))"
| "insertMember name offset t _ = None"

section \<open>Compound members and compound types (cph5comptype.h)\<close>

text \<open>
  What \<^verbatim>\<open>mpParent->getIOFacility()\<close> gives a member: no parent at all, a parent that
  reports no facility, a facility whose dataset handle is null, or a facility bound to an
  open dataset.
\<close>

datatype pIO = NoParent | NullFacility | UnboundFacility | BoundFacility

text \<open>
  The four kinds of member. A value of type \<^verbatim>\<open>T\<close> is its object representation, the
  \<^verbatim>\<open>sizeof(T)\<close> bytes that \<^verbatim>\<open>memcpy\<close> moves. The field \<open>arr\<close> says whether
  \<^verbatim>\<open>mpArrParent\<close> is set.
  \<^item> \<open>CompMember name mType mT arr\<close>: a member of a type that is not a record.
  \<^item> \<open>CompMemberInh name mType obj\<close>: a member that is itself a record; \<open>obj\<close> is the
    \<^verbatim>\<open>CPH5CompType\<close> it inherits from, which holds its \<^verbatim>\<open>mpArrParent\<close>.
  \<^item> \<open>CompMemberArray name mBaseType size mNElements pMT mReadDone arr\<close>: an array of
    \<open>mNElements\<close> values of \<open>size\<close> bytes each, \<open>pMT\<close> holding them one after the other.
  \<^item> \<open>CompMemberArrayInh name mBaseType mNElements pmT mReadDone mDatasetIndices arr\<close>:
    an array of records; \<open>pmT\<close> is allocated with \<open>mNElements + 1\<close> objects.
  An array exists only with a number of elements that is not negative (\<^verbatim>\<open>new\<close> throws
  otherwise), so \<open>mNElements\<close> is a natural number.
\<close>

datatype Member =
    CompMember string H5DataType "char list" bool
  | CompMemberInh string H5DataType CPH5CompType
  | CompMemberArray string H5DataType nat nat "char list" bool bool
  | CompMemberArrayInh string H5DataType nat "CPH5CompType list" bool "int list" bool
and CPH5CompType =
    CPH5CompType (mChildren: "Member list") (mpFacility: pIO) (mpArrParent: bool)

fun getName :: "Member \<Rightarrow> string" where
  "getName (CompMember name t mT a) = name"
| "getName (CompMemberInh name t obj) = name"
| "getName (CompMemberArray name b sz n pMT rd a) = name"
| "getName (CompMemberArrayInh name b n pmT rd di a) = name"

fun getType :: "Member \<Rightarrow> H5DataType" where
  "getType (CompMember name t mT a) = t"
| "getType (CompMemberInh name t obj) = t"
| "getType (CompMemberArray name b sz n pMT rd a) = ArrayType b [n]"
| "getType (CompMemberArrayInh name b n pmT rd di a) = ArrayType b [n]"

text \<open>
  \<^verbatim>\<open>getSize\<close> returns \<^verbatim>\<open>int\<close>: \<^verbatim>\<open>sizeof(T)\<close>, the record's
  \<^verbatim>\<open>getTotalMemorySize()\<close>, \<^verbatim>\<open>sizeof(T)*mNElements\<close>, or
  \<^verbatim>\<open>mNElements*mBaseType.getSize()\<close>; the two products are taken in \<^verbatim>\<open>size_t\<close>.
  \<^verbatim>\<open>getTotalMemorySize\<close> adds in \<^verbatim>\<open>int\<close>.
\<close>

fun getSize :: "Member \<Rightarrow> int"
  and getTotalMemorySize_children :: "Member list \<Rightarrow> int \<Rightarrow> int"
  and getTotalMemorySize :: "CPH5CompType \<Rightarrow> int" where
  "getSize (CompMember name t mT a) = to_int (int (length mT))"
| "getSize (CompMemberInh name t obj) = getTotalMemorySize obj"
| "getSize (CompMemberArray name b sz n pMT rd a) =
     to_int (int ((sz * n) mod 18446744073709551616))"
| "getSize (CompMemberArrayInh name b n pmT rd di a) =
     to_int (int ((n * H5_getSize b) mod 18446744073709551616))"
| "getTotalMemorySize_children [] ret = ret"
| "getTotalMemorySize_children (m # ms) ret =
     getTotalMemorySize_children ms (to_int (ret + getSize m))"
| "getTotalMemorySize (CPH5CompType children f a) = getTotalMemorySize_children children 0"

fun insert_children :: "Member list \<Rightarrow> nat \<Rightarrow> H5DataType \<Rightarrow> H5DataType option" where
  \<comment> \<open>the second loop of \<^verbatim>\<open>getCompType\<close>, \<open>size\<close> being the running offset\<close>
  "insert_children [] size' ct = Some ct"
| "insert_children (m # ms) size' ct =
     (case insertMember (getName m) size' (getType m) ct of
        None \<Rightarrow> None
      | Some ct' \<Rightarrow>
          insert_children ms ((size' + to_hsize (getSize m)) mod 18446744073709551616) ct')"

definition getCompType :: "CPH5CompType \<Rightarrow> H5DataType option" where
  \<comment> \<open>\<open>None\<close>: the engine raised an exception\<close>
  "getCompType obj =
     (case CompType_create
             (fold (\<lambda>m s. (s + to_hsize (getSize m)) mod 18446744073709551616) (mChildren obj) 0) of
        None \<Rightarrow> None
      | Some ct \<Rightarrow> insert_children (mChildren obj) 0 ct)"

definition registerMember :: "Member \<Rightarrow> CPH5CompType \<Rightarrow> CPH5CompType" where
  "registerMember m obj = CPH5CompType (mChildren obj @ [m]) (mpFacility obj) (mpArrParent obj)"

fun setArrayParent_member :: "bool \<Rightarrow> Member \<Rightarrow> Member"
  and setArrayParent_children :: "bool \<Rightarrow> Member list \<Rightarrow> Member list"
  and setArrayParent_elems :: "bool \<Rightarrow> nat \<Rightarrow> CPH5CompType list \<Rightarrow> CPH5CompType list"
  and setArrayParent :: "bool \<Rightarrow> CPH5CompType \<Rightarrow> CPH5CompType" where
  "setArrayParent_member p (CompMember name t mT a) = CompMember name t mT p"
| "setArrayParent_member p (CompMemberInh name t obj) = CompMemberInh name t (setArrayParent p obj)"
| "setArrayParent_member p (CompMemberArray name b sz n pMT rd a) = CompMemberArray name b sz n pMT rd p"
| "setArrayParent_member p (CompMemberArrayInh name b n pmT rd di a) =
     CompMemberArrayInh name b n (setArrayParent_elems p n pmT) rd di p"
| "setArrayParent_children p [] = []"
| "setArrayParent_children p (m # ms) = setArrayParent_member p m # setArrayParent_children p ms"
| "setArrayParent_elems p n [] = []"
| "setArrayParent_elems p n (e # es) =
     (if n = 0 then e # es else setArrayParent p e # setArrayParent_elems p (n - 1) es)"
| "setArrayParent p (CPH5CompType children f a) = CPH5CompType (setArrayParent_children p children) f p"

subsection \<open>Serialising into and out of a flat buffer\<close>


definition memcpy_from :: "(nat \<Rightarrow> char) \<Rightarrow> nat \<Rightarrow> nat \<Rightarrow> char list" where
  "memcpy_from mem p n = map (\<lambda>i. mem (p + i)) [0 ..< n]"

text \<open>
  \<open>file\<close> is what the engine holds, at the element the facility selects, for the member
  reached by a path of member names (the compound type that \<^verbatim>\<open>nestCompTypeIR\<close>
  builds around the member's own type); a read through a bound facility stores it in the
  member's memory. The members of an element of an array of records ask that element for
  its facility, and their paths start at the element. An exception of the engine during
  such a read or write is outside this model.
\<close>

fun read_into :: "pIO \<Rightarrow> char list \<Rightarrow> char list \<times> bool \<Rightarrow> char list \<times> bool" where
  \<comment> \<open>what \<^verbatim>\<open>read(T *buf)\<close> of the array of values, called with \<open>buf = pMT\<close>, does to
      \<open>pMT\<close> and \<open>mReadDone\<close>; \<open>stored\<close> is what the engine holds for the member; the
      final \<^verbatim>\<open>memcpy\<close> copies \<open>pMT\<close> onto itself\<close>
  "read_into NoParent stored (pMT, rd) = (pMT, rd)"
| "read_into NullFacility stored (pMT, rd) = (pMT, rd)"
| "read_into UnboundFacility stored (pMT, rd) = (pMT, True)"
| "read_into BoundFacility stored (pMT, rd) = (stored, True)"




fun latchAndMove :: "Member \<Rightarrow> (nat \<Rightarrow> char) \<times> nat \<Rightarrow> Member \<times> nat"
  and latchAllAndMove_children :: "Member list \<Rightarrow> (nat \<Rightarrow> char) \<times> nat \<Rightarrow> Member list \<times> nat"
  and latch_elems :: "nat \<Rightarrow> CPH5CompType list \<Rightarrow> (nat \<Rightarrow> char) \<times> nat \<Rightarrow> CPH5CompType list \<times> nat" where
  "latchAndMove (CompMember name t mT a) c =
     (CompMember name t (memcpy_from (fst c) (snd c) (length mT)) a, snd c + length mT)"
| "latchAndMove (CompMemberInh name t (CPH5CompType children f a')) c =
     (case latchAllAndMove_children children c of
        (children', p') \<Rightarrow> (CompMemberInh name t (CPH5CompType children' f a'), p'))"
| "latchAndMove (CompMemberArray name b sz n pMT rd a) c =
     (CompMemberArray name b sz n
        (memcpy_from (fst c) (snd c) (sz * n) @ drop (sz * n) pMT) True a, snd c + sz * n)"
| "latchAndMove (CompMemberArrayInh name b n pmT rd di a) c =
     (case latch_elems n pmT c of
        (pmT', p') \<Rightarrow> (CompMemberArrayInh name b n pmT' True di a, p'))"
| "latchAllAndMove_children [] c = ([], snd c)"
| "latchAllAndMove_children (m # ms) c =
     (case latchAndMove m c of
        (m', p') \<Rightarrow>
          (case latchAllAndMove_children ms (fst c, p') of
             (ms', p'') \<Rightarrow> (m' # ms', p'')))"
| "latch_elems n [] c = ([], snd c)"
| "latch_elems n (CPH5CompType children f a # es) c =
     (if n = 0 then (CPH5CompType children f a # es, snd c)
      else
        (case latchAllAndMove_children children c of
           (children', p') \<Rightarrow>
             (case latch_elems (n - 1) es (fst c, p') of
                (es', p'') \<Rightarrow> (CPH5CompType children' f a # es', p''))))"


subsection \<open>Access to single elements of an array of values\<close>

definition load_elem :: "nat \<Rightarrow> nat \<Rightarrow> char list \<Rightarrow> char list" where
  \<comment> \<open>\<open>pMT[i]\<close> read as a value of \<open>sz\<close> bytes\<close>
  "load_elem sz i bs = map (\<lambda>t. bs ! (i * sz + t)) [0 ..< sz]"

definition store_elem :: "nat \<Rightarrow> nat \<Rightarrow> char list \<Rightarrow> char list \<Rightarrow> char list" where
  \<comment> \<open>\<open>pMT[i] = val\<close>\<close>
  "store_elem sz i val bs =
     map (\<lambda>t. if i * sz \<le> t \<and> t < i * sz + sz then val ! (t - i * sz) else bs ! t) [0 ..< length bs]"

fun write_through :: "pIO \<Rightarrow> bool \<Rightarrow> (string list \<Rightarrow> char list) \<Rightarrow> string list \<Rightarrow> char list
    \<Rightarrow> (string list \<Rightarrow> char list) \<times> bool" where
  \<comment> \<open>the tail shared by the writes of a member: through the parent's facility when there
      is one (a facility without a dataset returns at once), else a
      \<^verbatim>\<open>signalChange()\<close> to the array parent when that is set; the result is the file
      and whether the signal was sent\<close>
  "write_through NoParent arr file key bs = (file, False)"
| "write_through NullFacility arr file key bs = (file, arr)"
| "write_through UnboundFacility arr file key bs = (file, False)"
| "write_through BoundFacility arr file key bs = (file(key := bs), False)"

fun write_array :: "pIO \<Rightarrow> (string list \<Rightarrow> char list) \<Rightarrow> string list \<Rightarrow> char list \<Rightarrow> Member
    \<Rightarrow> Member \<times> (string list \<Rightarrow> char list) \<times> bool" where
  \<comment> \<open>\<^verbatim>\<open>write(const T *buf)\<close>\<close>
  "write_array io file path buf (CompMemberArray name b sz n pMT rd a) =
     (let pMT' = take (sz * n) buf @ drop (sz * n) pMT in
      case write_through io a file (path @ [name]) pMT' of
        (file', signal) \<Rightarrow> (CompMemberArray name b sz n pMT' rd a, file', signal))"
| "write_array io file path buf m = (m, file, False)"

fun write_index :: "pIO \<Rightarrow> (string list \<Rightarrow> char list) \<Rightarrow> string list \<Rightarrow> char list \<Rightarrow> int \<Rightarrow> Member
    \<Rightarrow> (Member \<times> (string list \<Rightarrow> char list) \<times> bool) option" where
  \<comment> \<open>\<^verbatim>\<open>write(T val, int index)\<close>; \<open>None\<close>: the index is outside the array, the
      store is undefined\<close>
  "write_index io file path val index (CompMemberArray name b sz n pMT rd a) =
     (case (if \<not> rd then read_into io (file (path @ [name])) (pMT, rd) else (pMT, rd)) of
        (pMT1, rd1) \<Rightarrow>
          if index < 0 \<or> int n \<le> index then None
          else Some (write_array io file path (store_elem sz (nat index) val pMT1)
                       (CompMemberArray name b sz n (store_elem sz (nat index) val pMT1) rd1 a)))"
| "write_index io file path val index m = None"

fun read_index :: "pIO \<Rightarrow> (string list \<Rightarrow> char list) \<Rightarrow> string list \<Rightarrow> int \<Rightarrow> Member
    \<Rightarrow> (char list \<times> Member) option" where
  \<comment> \<open>\<^verbatim>\<open>T read(int index)\<close>\<close>
  "read_index io file path index (CompMemberArray name b sz n pMT rd a) =
     (case (if \<not> rd then read_into io (file (path @ [name])) (pMT, rd) else (pMT, rd)) of
        (pMT1, rd1) \<Rightarrow>
          if index < 0 \<or> int n \<le> index then None
          else Some (load_elem sz (nat index) pMT1, CompMemberArray name b sz n pMT1 rd1 a))"
| "read_index io file path index m = None"

fun pMT_of :: "Member \<Rightarrow> char list" where
  "pMT_of (CompMemberArray name b sz n pMT rd a) = pMT"
| "pMT_of m = []"

subsection \<open>Arrays of records\<close>

definition new_array :: "string \<Rightarrow> H5DataType \<Rightarrow> nat \<Rightarrow> CPH5CompType \<Rightarrow> Member" where
  \<comment> \<open>the constructor of an array of \<open>n\<close> records: \<open>n + 1\<close> objects, each as \<^verbatim>\<open>T()\<close>
      builds it (\<open>T0\<close>), and the first \<open>n\<close> are told their array parent\<close>
  "new_array name b n T0 =
     CompMemberArrayInh name b n (setArrayParent_elems True n (replicate (n + 1) T0)) False [] False"

fun elements_of :: "Member \<Rightarrow> CPH5CompType list" where
  "elements_of (CompMemberArrayInh name b n pmT rd di a) = pmT"
| "elements_of m = []"

fun setDatasetIndices :: "int list \<Rightarrow> Member \<Rightarrow> Member" where
  "setDatasetIndices cur (CompMemberArrayInh name b n pmT rd di a) =
     CompMemberArrayInh name b n pmT rd cur a"
| "setDatasetIndices cur m = m"

fun readAll :: "pIO \<Rightarrow> (string list \<Rightarrow> char list) \<Rightarrow> string list \<Rightarrow> Member \<Rightarrow> Member option" where
  \<comment> \<open>the buffer has the size of the member's array type, which is the size of what the
      engine holds for the member; it is cleared, and an unbound facility leaves it so.
      \<open>None\<close>: the elements latch more bytes than the buffer has\<close>
  "readAll io file path (CompMemberArrayInh name b n pmT rd di a) =
     (if io = NoParent \<or> a then Some (CompMemberArrayInh name b n pmT rd di a)
      else if io = NullFacility then Some (CompMemberArrayInh name b n pmT rd di a)
      else
        let buf = (if io = BoundFacility then file (path @ [name])
                   else replicate (H5_getSize b * n) (CHR 0x00)) in
        case latch_elems n pmT (\<lambda>a. buf ! a, 0) of
          (pmT', p) \<Rightarrow>
            if length buf < p then None
            else Some (CompMemberArrayInh name b n pmT' True di a))"
| "readAll io file path m = Some m"

fun index_elem :: "pIO \<Rightarrow> int list \<Rightarrow> (string list \<Rightarrow> char list) \<Rightarrow> string list \<Rightarrow> int \<Rightarrow> Member
    \<Rightarrow> (nat \<times> Member) option" where
  \<comment> \<open>\<^verbatim>\<open>operator[](index)\<close>: the position in \<open>pmT\<close> of the object it returns a
      reference to, and the array as the call leaves it; \<open>cur\<close> is what the facility's
      \<^verbatim>\<open>getIndices()\<close> returns\<close>
  "index_elem io cur file path index (CompMemberArrayInh name b n pmT rd di a) =
     (let this = CompMemberArrayInh name b n pmT rd di a;
          pioFacility = (io = UnboundFacility \<or> io = BoundFacility);
          refreshed =
            (if \<not> rd \<and> pioFacility
             then map_option (setDatasetIndices cur) (readAll io file path this)
             else if pioFacility \<and> \<not> a
             then map_option (setDatasetIndices cur)
                    (if cur \<noteq> di then readAll io file path this else Some this)
             else Some this)
      in map_option (\<lambda>m. (if 0 \<le> index \<and> index < int n then nat index else n, m)) refreshed)"
| "index_elem io cur file path index m = None"

fun member_assign :: "pIO \<Rightarrow> (string list \<Rightarrow> char list) \<Rightarrow> string list \<Rightarrow> char list \<Rightarrow> Member
    \<Rightarrow> Member \<times> (string list \<Rightarrow> char list) \<times> bool" where
  \<comment> \<open>\<^verbatim>\<open>operator=(const T &other)\<close> of a member that is a value\<close>
  "member_assign io file path other (CompMember name t mT a) =
     (case write_through io a file (path @ [name]) other of
        (file', signal) \<Rightarrow> (CompMember name t other a, file', signal))"
| "member_assign io file path other m = (m, file, False)"

fun member_get :: "pIO \<Rightarrow> (string list \<Rightarrow> char list) \<Rightarrow> string list \<Rightarrow> Member \<Rightarrow> char list \<times> Member" where
  \<comment> \<open>\<^verbatim>\<open>get()\<close> of a member that is a value: read through the parent's facility
      when there is one, then the local value\<close>
  "member_get io file path (CompMember name t mT a) =
     (if io = BoundFacility
      then (file (path @ [name]), CompMember name t (file (path @ [name])) a)
      else (mT, CompMember name t mT a))"
| "member_get io file path m = ([], m)"

fun elem_assign :: "(string list \<Rightarrow> char list) \<Rightarrow> nat \<Rightarrow> nat \<Rightarrow> char list \<Rightarrow> Member
    \<Rightarrow> Member \<times> (string list \<Rightarrow> char list) \<times> bool" where
  \<comment> \<open>an assignment to the \<open>k\<close>-th member of the record at position \<open>p\<close> of \<open>pmT\<close>, the
      reference \<^verbatim>\<open>operator[]\<close> returned; the member asks that record for its facility\<close>
  "elem_assign file p k other (CompMemberArrayInh name b n pmT rd di a) =
     (case pmT ! p of
        CPH5CompType children f a' \<Rightarrow>
          (case member_assign f file [] other (children ! k) of
             (m', file', signal) \<Rightarrow>
               (CompMemberArrayInh name b n
                  (pmT[p := CPH5CompType (children[k := m']) f a']) rd di a, file', signal)))"
| "elem_assign file p k other m = (m, file, False)"

fun elem_get :: "(string list \<Rightarrow> char list) \<Rightarrow> nat \<Rightarrow> nat \<Rightarrow> Member \<Rightarrow> char list" where
  \<comment> \<open>the value read from the \<open>k\<close>-th member of the record at position \<open>p\<close>\<close>
  "elem_get file p k (CompMemberArrayInh name b n pmT rd di a) =
     (case pmT ! p of
        CPH5CompType children f a' \<Rightarrow> fst (member_get f file [] (children ! k)))"
| "elem_get file p k m = []"

subsection \<open>Values, shapes and sizes of records\<close>

text \<open>
  The value of a member is the bytes it holds: a value, the \<open>n\<close> elements of an array of
  values, and for a record or an array of records the values of the members, in order.
  The shape of a member is its value without the bytes: what the type of the record
  fixes.
\<close>

datatype val = Bytes "char list" | Rec "val list"

datatype shp = SBytes nat | SRec "shp list"

fun flatten :: "val \<Rightarrow> char list" where
  "flatten (Bytes bs) = bs"
| "flatten (Rec vs) = concat (map flatten vs)"

fun shape_of :: "val \<Rightarrow> shp" where
  "shape_of (Bytes bs) = SBytes (length bs)"
| "shape_of (Rec vs) = SRec (map shape_of vs)"

fun shp_size :: "shp \<Rightarrow> nat" where
  "shp_size (SBytes k) = k"
| "shp_size (SRec ss) = sum_list (map shp_size ss)"

fun values_member :: "Member \<Rightarrow> val"
  and values_children :: "Member list \<Rightarrow> val list"
  and values_elems :: "nat \<Rightarrow> CPH5CompType list \<Rightarrow> val list" where
  "values_member (CompMember name t mT a) = Bytes mT"
| "values_member (CompMemberInh name t (CPH5CompType children f a')) = Rec (values_children children)"
| "values_member (CompMemberArray name b sz n pMT rd a) = Bytes (take (sz * n) pMT)"
| "values_member (CompMemberArrayInh name b n pmT rd di a) = Rec (values_elems n pmT)"
| "values_children [] = []"
| "values_children (m # ms) = values_member m # values_children ms"
| "values_elems n [] = []"
| "values_elems n (CPH5CompType children f a # es) =
     (if n = 0 then [] else Rec (values_children children) # values_elems (n - 1) es)"

fun shape_member :: "Member \<Rightarrow> shp"
  and shape_children :: "Member list \<Rightarrow> shp list"
  and shape_elems :: "nat \<Rightarrow> CPH5CompType list \<Rightarrow> shp list" where
  "shape_member (CompMember name t mT a) = SBytes (length mT)"
| "shape_member (CompMemberInh name t (CPH5CompType children f a')) = SRec (shape_children children)"
| "shape_member (CompMemberArray name b sz n pMT rd a) = SBytes (sz * n)"
| "shape_member (CompMemberArrayInh name b n pmT rd di a) = SRec (shape_elems n pmT)"
| "shape_children [] = []"
| "shape_children (m # ms) = shape_member m # shape_children ms"
| "shape_elems n [] = []"
| "shape_elems n (CPH5CompType children f a # es) =
     (if n = 0 then [] else SRec (shape_children children) # shape_elems (n - 1) es)"







section \<open>Rebuilding a record from a compound type of the file (cph5dynamic.h)\<close>

text \<open>
  How a call of \<^verbatim>\<open>recurseComptype\<close> can end other than by returning: one of the
  \<^verbatim>\<open>throw\<close> statements with its message, \<^verbatim>\<open>new\<close> refusing a negative length, or
  a call through the null pointer that \<^verbatim>\<open>getCompTypeObjAtBypass\<close> returns.
\<close>

datatype failure = Thrown string | Bad_array_new_length | Null_dereference

definition int_kinds :: "(H5T_sign \<times> nat) list" where
  \<comment> \<open>\<^verbatim>\<open>getH5Sign<T>()\<close> and \<^verbatim>\<open>sizeof(T)\<close> for the eight integer types, in the order
      they are tried\<close>
  "int_kinds =
     [(H5T_SGN_2, 1), (H5T_SGN_2, 2), (H5T_SGN_2, 4), (H5T_SGN_2, 8),
      (H5T_SGN_NONE, 1), (H5T_SGN_NONE, 2), (H5T_SGN_NONE, 4), (H5T_SGN_NONE, 8)]"

definition float_kinds :: "nat list" where
  "float_kinds = [4, 8]"

definition adderIf_int :: "H5DataType \<Rightarrow> bool" where
  \<comment> \<open>whether one of the eight \<^verbatim>\<open>memberAdderIf\<close> (or \<^verbatim>\<open>arrayAddIf\<close>) calls succeeds\<close>
  "adderIf_int t = list_ex (\<lambda>(sg, k). sg = H5Tget_sign t \<and> H5_getSize t = k) int_kinds"

definition adderIf_float :: "H5DataType \<Rightarrow> bool" where
  "adderIf_float t = list_ex (\<lambda>k. H5_getSize t = k) float_kinds"

definition registerExternalMember :: "bool \<Rightarrow> Member \<Rightarrow> Member" where
  \<comment> \<open>what \<^verbatim>\<open>fill->registerExternalMember(member)\<close> does to the member; \<open>arr\<close>: the
      \<^verbatim>\<open>mpArrParent\<close> of \<open>fill\<close> is set\<close>
  "registerExternalMember arr m = (if arr then setArrayParent_member True m else m)"

text \<open>
  \<open>recurse_member\<close> is the body of the loop for one member, giving the member it
  registers with \<open>fill\<close>, or \<open>None\<close> when it registers nothing; \<open>recurseComptype\<close>
  gives the members registered for the whole list, in order. The value of a new
  \<^verbatim>\<open>CPH5CompMember<T>\<close> is not initialised: its bytes are \<open>fresh\<close>. An array of
  values is cleared by its constructor. An atomic type has a class other than compound
  and array.
\<close>

fun recurse_member :: "(nat \<Rightarrow> char) \<Rightarrow> bool \<Rightarrow> string \<Rightarrow> H5DataType \<Rightarrow> failure + Member option"
  and recurseComptype ::
    "(nat \<Rightarrow> char) \<Rightarrow> bool \<Rightarrow> (string \<times> nat \<times> H5DataType) list \<Rightarrow> failure + Member list" where
  "recurse_member fresh arr name (CompType n ms) =
     (case recurseComptype fresh False ms of
        Inl e \<Rightarrow> Inl e
      | Inr children \<Rightarrow>
          Inr (Some (registerExternalMember arr
                 (CompMemberInh name (CompType n ms) (CPH5CompType children NullFacility False)))))"
| "recurse_member fresh arr name (AtomType c s n) =
     (if c = H5T_INTEGER then
        (if adderIf_int (AtomType c s n)
         then Inr (Some (registerExternalMember arr
                     (CompMember name (AtomType c s n) (map fresh [0 ..< n]) False)))
         else Inl (Thrown ''BAD FAIL''))
      else if c = H5T_FLOAT then
        (if adderIf_float (AtomType c s n)
         then Inr (Some (registerExternalMember arr
                     (CompMember name (AtomType c s n) (map fresh [0 ..< n]) False)))
         else Inl (Thrown ''BAD FAIL''))
      else Inl (Thrown ''BAD UNKNOWN TYPE''))"
| "recurse_member fresh arr name (ArrayType b ds) =
     (if length ds = 1 then
        (let nElements = to_int (int (hd ds)) in
         case b of
           CompType bn bms \<Rightarrow>
             (if nElements < - 1 then Inl Bad_array_new_length
              else if nElements = - 1 then Inl Null_dereference
              else if nElements = 0 then
                Inr (Some (registerExternalMember arr
                       (CompMemberArrayInh name b 0 [CPH5CompType [] NullFacility False] False [] False)))
              else
                (case recurseComptype fresh True bms of
                   Inl e \<Rightarrow> Inl e
                 | Inr children \<Rightarrow>
                     Inr (Some (registerExternalMember arr
                            (CompMemberArrayInh name b (nat nElements)
                               (replicate (nat nElements)
                                  (setArrayParent True (CPH5CompType children NullFacility True))
                                @ [CPH5CompType [] NullFacility False])
                               False [] False)))))
         | AtomType c s k \<Rightarrow>
             (if c = H5T_INTEGER then
                (if adderIf_int b then
                   (if nElements < 0 then Inl Bad_array_new_length
                    else Inr (Some (registerExternalMember arr
                                (CompMemberArray name b k (nat nElements)
                                   (replicate (k * nat nElements) (CHR 0x00)) False False))))
                 else Inl (Thrown ''BAD UNKNOWN ARRAY TYPE''))
              else if c = H5T_FLOAT then
                (if adderIf_float b then
                   (if nElements < 0 then Inl Bad_array_new_length
                    else Inr (Some (registerExternalMember arr
                                (CompMemberArray name b k (nat nElements)
                                   (replicate (k * nat nElements) (CHR 0x00)) False False))))
                 else Inl (Thrown ''BAD UNKNOWN ARRAY FLOAT TYPE''))
              else Inr None)
         | ArrayType b' ds' \<Rightarrow> Inr None)
      else Inr None)"
| "recurseComptype fresh arr [] = Inr []"
| "recurseComptype fresh arr ((name, offset, t) # ms) =
     (case recurse_member fresh arr name t of
        Inl e \<Rightarrow> Inl e
      | Inr r \<Rightarrow>
          (case recurseComptype fresh arr ms of
             Inl e \<Rightarrow> Inl e
           | Inr rest \<Rightarrow> Inr (case r of None \<Rightarrow> rest | Some m \<Rightarrow> m # rest)))"

definition grid_type :: "(string \<times> nat \<times> H5DataType) list" where
  \<comment> \<open>the members of a compound type of 20 bytes: an integer and a 2 by 2 array of
      integers\<close>
  "grid_type =
     [(''id'', 0, AtomType H5T_INTEGER H5T_SGN_2 4),
      (''grid'', 4, ArrayType (AtomType H5T_INTEGER H5T_SGN_2 4) [2, 2])]"

subsection \<open>A record with a value, an array of values and a nested record\<close>

definition layout_members :: "Member list" where
  "layout_members =
     [CompMember ''id'' (AtomType H5T_INTEGER H5T_SGN_2 4) (replicate 4 (CHR ''a'')) False,
      CompMemberArray ''samples'' (AtomType H5T_FLOAT H5T_SGN_ERROR 8) 8 3
        (replicate 24 (CHR ''b'')) False False,
      CompMemberInh ''pos'' (CompType 8 [(''x'', 0, AtomType H5T_FLOAT H5T_SGN_ERROR 4),
                                         (''y'', 4, AtomType H5T_FLOAT H5T_SGN_ERROR 4)])
        (CPH5CompType
           [CompMember ''x'' (AtomType H5T_FLOAT H5T_SGN_ERROR 4) (replicate 4 (CHR ''c'')) False,
            CompMember ''y'' (AtomType H5T_FLOAT H5T_SGN_ERROR 4) (replicate 4 (CHR ''d'')) False]
           NullFacility False)]"

definition layout_type :: H5DataType where
  "layout_type =
     CompType 36
       [(''id'', 0, AtomType H5T_INTEGER H5T_SGN_2 4),
        (''samples'', 4, ArrayType (AtomType H5T_FLOAT H5T_SGN_ERROR 8) [3]),
        (''pos'', 28, CompType 8 [(''x'', 0, AtomType H5T_FLOAT H5T_SGN_ERROR 4),
                                  (''y'', 4, AtomType H5T_FLOAT H5T_SGN_ERROR 4)])]"






definition spare_T0 :: CPH5CompType where
  "spare_T0 = CPH5CompType [CompMember ''x'' (AtomType H5T_INTEGER H5T_SGN_2 2) ''ab'' False]
                NullFacility False"

definition spare_arr :: Member where
  "spare_arr = new_array ''pts'' (CompType 2 [(''x'', 0, AtomType H5T_INTEGER H5T_SGN_2 2)]) 2 spare_T0"

subsection \<open>An array of values in a dataset of two records\<close>

text \<open>
  The member \<open>v\<close>, three values of two bytes, of the record object of a dataset; the
  dataset holds \<open>aa bb cc\<close> for it in record 0 and \<open>pp qq rr\<close> in record 1. The file as
  the facility selects record 0, and as it selects record 1.
\<close>

definition cached_array :: Member where
  "cached_array =
     CompMemberArray ''v'' (AtomType H5T_INTEGER H5T_SGN_2 2) 2 3 (replicate 6 (CHR 0x00)) False False"

definition record0_file :: "string list \<Rightarrow> char list" where
  "record0_file key = ''aabbcc''"

definition record1_file :: "string list \<Rightarrow> char list" where
  "record1_file key = ''ppqqrr''"

section \<open>Arithmetic of the conversions\<close>

lemma to_int_id: "- 2147483648 \<le> x \<Longrightarrow> x < 2147483648 \<Longrightarrow> to_int x = x"
  by (simp add: to_int_def)

lemma to_hsize_id: "0 \<le> x \<Longrightarrow> x < 18446744073709551616 \<Longrightarrow> to_hsize x = nat x"
  by (simp add: to_hsize_def)

lemma to_hsize_to_int_nat: "d < 2147483648 \<Longrightarrow> to_hsize (to_int (int d)) = d"
  by (simp add: to_int_id to_hsize_id)

section \<open>Properties of the Selection/IO facility\<close>


text \<open>
  Claim C3. A facility that holds no dataset handle (the state of a facility on which
  \<^verbatim>\<open>init\<close> was never called, \<open>IOFacility_new\<close>, and of one initialised before
  the container was opened) returns from \<^verbatim>\<open>read\<close>, \<^verbatim>\<open>write\<close> and
  \<^verbatim>\<open>writeWithOffset\<close> at once: nothing is stored into the caller's buffer, the
  storage is the same and so is every field of the facility, and no exception is raised.
\<close>

theorem unbound_facility_noop:
  assumes "mpDataSet f = None"
  shows "IOFacility_read junk (f, st) = Returned ([], f, st) \<and>
         IOFacility_write junk src (f, st) = Returned (f, st) \<and>
         writeWithOffset junk off src (f, st) = Returned (f, st)"
  using assms by (simp add: IOFacility_read_def IOFacility_write_def writeWithOffset_def)

theorem unbound_facility_noop_witness:
  "IOFacility_read (\<lambda>_. 7) (IOFacility_new, Map.empty :: nat storage)
     = Returned ([], IOFacility_new, Map.empty) \<and>
   IOFacility_write (\<lambda>_. 7) [1, 2, 3] (IOFacility_new, Map.empty :: nat storage)
     = Returned (IOFacility_new, Map.empty) \<and>
   writeWithOffset (\<lambda>_. 7) 2 [1, 2, 3] (IOFacility_new, Map.empty :: nat storage)
     = Returned (IOFacility_new, Map.empty)"
proof -
  have "mpDataSet IOFacility_new = None"
    by (simp add: IOFacility_new_def)
  then show ?thesis
    by (rule unbound_facility_noop)
qed

lemma fold_addIndex: "numDims f \<noteq> -1 \<Longrightarrow> fold addIndex idx f = f\<lparr>mIndices := mIndices f @ idx\<rparr>"
  by (induction idx arbitrary: f) (simp_all add: addIndex_def Let_def)

lemma prod_ext: "k \<le> n \<Longrightarrow> prod_list (map (\<lambda>i. if i < k then 1 else g i) [0 ..< n]) = prod_list (map (g :: nat \<Rightarrow> nat) [k ..< n])"
proof -
  assume "k \<le> n"
  then have split: "[0 ..< n] = [0 ..< k] @ [k ..< n]"
    by (metis le_add_diff_inverse upt_add_eq_append zero_le)
  have low: "map (\<lambda>i. if i < k then 1 else g i) [0 ..< k] = replicate k (1::nat)"
    by (rule nth_equalityI) simp_all
  have high: "map (\<lambda>i. if i < k then 1 else g i) [k ..< n] = map g [k ..< n]"
    by (rule map_cong) simp_all
  show ?thesis unfolding split by (simp add: low high)
qed

lemma extents_prod:
  assumes "k \<le> length dims" "\<forall>d\<in>set dims. d < 2147483648"
    and ms: "ms = map (\<lambda>d. to_int (int d)) dims"
  shows "prod_list (map (\<lambda>i. if i < k then 1 else to_hsize (ms ! i)) [0 ..< length dims])
         = prod_list (drop k dims)"
proof -
  have "map (\<lambda>i. to_hsize (ms ! i)) [k ..< length dims]
        = map (\<lambda>d. to_hsize (to_int (int d))) (drop k dims)"
    unfolding ms by (rule nth_equalityI) simp_all
  also have "\<dots> = drop k dims"
    using assms(2) by (intro map_idI) (auto dest: in_set_dropD simp: to_hsize_to_int_nat)
  finally show ?thesis
    using assms(1) by (simp add: prod_ext)
qed

text \<open>
  Claim C4, with the bounds the code needs. A facility initialised on an open dataset of
  rank \<open>N \<le> 32\<close> with the extents \<open>dims\<close>, each below \<open>2^31\<close> (the facility keeps
  them as \<^verbatim>\<open>int\<close>), on which \<open>k \<le> N\<close> indices were then fixed, selects as many
  elements as the product of the extents of the dimensions \<open>k..N-1\<close> (1 when \<open>k = N\<close>),
  whatever the stack held; the byte count is that number times the size of the element
  type. Both are returned as \<^verbatim>\<open>hsize_t\<close>, hence modulo \<open>2^64\<close>.
\<close>

theorem element_count:
  assumes "init (Some h) type (int (length dims)) dims f0 = Returned f1"
    and "st h = Some ds" and "length (ds_dims ds) = length dims"
    and "length dims \<le> CPH_5_MAX_DIMS"
    and "\<forall>d\<in>set dims. d < 2147483648"
    and "length idx \<le> length dims"
  shows "(\<exists>f'. getNumLowerElements junk st (fold addIndex idx f1)
            = Returned (prod_list (drop (length idx) dims) mod 18446744073709551616, f')) \<and>
         (\<exists>f'. getSizeLowerElements junk st (fold addIndex idx f1)
            = Returned ((prod_list (drop (length idx) dims) * type) mod 18446744073709551616, f'))"
proof -
  let ?n = "length dims" and ?k = "length idx"
  define g where "g = fold addIndex idx f1"
  have f1: "f1 = f0\<lparr>mpDataSet := Some h, mType := type, numDims := int ?n,
                     mMaxDims := map (\<lambda>d. to_int (int d)) dims, mIndices := []\<rparr>"
    using assms(1) by (simp add: init_def)
  have "g = f1\<lparr>mIndices := mIndices f1 @ idx\<rparr>"
    unfolding g_def by (rule fold_addIndex) (simp add: f1)
  then have g: "mpDataSet g = Some h" "mType g = type" "numDims g = int ?n"
      "mMaxDims g = map (\<lambda>d. to_int (int d)) dims" "mIndices g = idx"
    by (simp_all add: f1)
  show ?thesis
  proof (cases "?n = 0")
    case True
    with assms(2-) show ?thesis unfolding g_def [symmetric]
      by (simp add: g getNumLowerElements_def getSizeLowerElements_def setupSpaces_def
          select_spaces_def getSpace_def Let_def)
  next
    case False
    with assms(3) have ne: "ds_dims ds \<noteq> []" by auto
    from False assms(2-) show ?thesis unfolding g_def [symmetric]
      by (simp add: g getNumLowerElements_def getSizeLowerElements_def setupSpaces_def
          select_spaces_def getSpace_def selectHyperslab_def Let_def ne
          extents_prod [OF _ _ g(4)])
  qed
qed


theorem element_count_witness:
  "\<exists>f1. init (Some 0) 4 2 [3, 4] IOFacility_new = Returned f1 \<and>
     (\<exists>f'. getNumLowerElements (\<lambda>_. 7) [0 \<mapsto> \<lparr>ds_dims = [3, 4], ds_maxdims = [Some 3, None],
              ds_chunked = True, ds_fill = (0::nat), ds_data = (\<lambda>_. 0)\<rparr>] (fold addIndex [1] f1)
            = Returned (4, f')) \<and>
     (\<exists>f'. getSizeLowerElements (\<lambda>_. 7) [0 \<mapsto> \<lparr>ds_dims = [3, 4], ds_maxdims = [Some 3, None],
              ds_chunked = True, ds_fill = (0::nat), ds_data = (\<lambda>_. 0)\<rparr>] (fold addIndex [1] f1)
            = Returned (16, f'))"
proof -
  let ?ds = "\<lparr>ds_dims = [3, 4], ds_maxdims = [Some 3, None],
              ds_chunked = True, ds_fill = (0::nat), ds_data = (\<lambda>_. 0)\<rparr>"
  define f1 where "f1 = IOFacility_new\<lparr>mpDataSet := Some 0, mType := 4, numDims := 2,
      mMaxDims := [3, 4], mIndices := []\<rparr>"
  have i: "init (Some 0) 4 (int (length [3, 4 :: nat])) [3, 4] IOFacility_new = Returned f1"
    by (simp add: init_def f1_def to_int_def)
  have "(\<exists>f'. getNumLowerElements (\<lambda>_. 7) [0 \<mapsto> ?ds] (fold addIndex [1] f1)
            = Returned (prod_list (drop (length [1::int]) [3, 4]) mod 18446744073709551616, f')) \<and>
     (\<exists>f'. getSizeLowerElements (\<lambda>_. 7) [0 \<mapsto> ?ds] (fold addIndex [1] f1)
            = Returned ((prod_list (drop (length [1::int]) [3, 4]) * 4) mod 18446744073709551616, f'))"
    by (rule element_count [OF i, where ds = ?ds]) (simp_all add: CPH_5_MAX_DIMS_def)
  with i show ?thesis by (intro exI [of _ f1]) simp
qed

text \<open>
  Outside these bounds the count is not the product. The facility keeps the extents in a
  vector of \<^verbatim>\<open>int\<close>: on a dataset with the single extent \<open>2^32 + 3\<close> it keeps 3 and
  selects 3 elements. With a rank of 33 \<^verbatim>\<open>setupSpaces\<close> stores past its two arrays of
  \<^verbatim>\<open>CPH_5_MAX_DIMS\<close> entries.
\<close>

theorem element_count_counterexample:
  "(\<exists>f1 f'. init (Some 0) 4 1 [4294967299] IOFacility_new = Returned f1 \<and>
      getNumLowerElements (\<lambda>_. 7)
          [0 \<mapsto> \<lparr>ds_dims = [4294967299], ds_maxdims = [None], ds_chunked = True,
                   ds_fill = (0::nat), ds_data = (\<lambda>_. 0)\<rparr>] (fold addIndex [] f1)
        = Returned (3, f') \<and>
      prod_list (drop 0 [4294967299 :: nat]) mod 18446744073709551616 \<noteq> 3) \<and>
   (\<exists>f1. init (Some 0) 4 33 (replicate 33 1) IOFacility_new = Returned f1 \<and>
      getNumLowerElements (\<lambda>_. 7)
          [0 \<mapsto> \<lparr>ds_dims = replicate 33 1, ds_maxdims = replicate 33 None, ds_chunked = True,
                   ds_fill = (0::nat), ds_data = (\<lambda>_. 0)\<rparr>] (fold addIndex [] f1)
        = Undefined)"
proof (intro conjI)
  let ?ds = "\<lparr>ds_dims = [4294967299], ds_maxdims = [None], ds_chunked = True,
                   ds_fill = (0::nat), ds_data = (\<lambda>_. 0)\<rparr>"
  have t: "to_int 4294967299 = 3" by (simp add: to_int_def)
  have h: "to_hsize 3 = 3" by (simp add: to_hsize_def)
  show "\<exists>f1 f'. init (Some 0) 4 1 [4294967299] IOFacility_new = Returned f1 \<and>
      getNumLowerElements (\<lambda>_. 7) [0 \<mapsto> ?ds] (fold addIndex [] f1) = Returned (3, f') \<and>
      prod_list (drop 0 [4294967299 :: nat]) mod 18446744073709551616 \<noteq> 3"
    by (simp add: init_def t h getNumLowerElements_def setupSpaces_def select_spaces_def
        getSpace_def selectHyperslab_def Let_def CPH_5_MAX_DIMS_def IOFacility_new_def)
next
  show "\<exists>f1. init (Some 0) 4 33 (replicate 33 1) IOFacility_new = Returned f1 \<and>
      getNumLowerElements (\<lambda>_. 7)
          [0 \<mapsto> \<lparr>ds_dims = replicate 33 1, ds_maxdims = replicate 33 None, ds_chunked = True,
                   ds_fill = (0::nat), ds_data = (\<lambda>_. 0)\<rparr>] (fold addIndex [] f1)
        = Undefined"
    by (simp add: init_def getNumLowerElements_def setupSpaces_def Let_def CPH_5_MAX_DIMS_def
        IOFacility_new_def)
qed

lemma setupSpaces_extra_index:
  assumes "numDims f = int N" "length (mIndices f) = N" "N < CPH_5_MAX_DIMS"
    and "mpDataSet f = Some h" "st h = Some ds" "length (ds_dims ds) = N"
  shows "setupSpaces junk st (addIndex ind f) = map_outcome (addIndex ind) (setupSpaces junk st f)"
proof -
  have a: "addIndex ind f = f\<lparr>mIndices := mIndices f @ [ind]\<rparr>"
    using assms(1) by (simp add: addIndex_def Let_def)
  have e: "map (\<lambda>i. if i < Suc N then 1 else to_hsize (mMaxDims f ! i)) [0..<N]
           = map (\<lambda>i. if i < N then 1 else to_hsize (mMaxDims f ! i)) [0..<N]"
    by (rule map_cong) simp_all
  show ?thesis
    using assms
    by (cases "length (mMaxDims f) < N")
      (auto simp add: a setupSpaces_def select_spaces_def Let_def getSpace_def
        selectHyperslab_def e addIndex_def)
qed


text \<open>
  What one \<^verbatim>\<open>addIndex\<close> too many leaves intact. On a facility bound to an open dataset
  of rank \<open>N < 32\<close> with \<open>N\<close> indices fixed, the first \<open>N\<close> indices are what they were
  after the call, and a following read or write raises or returns as it would have without
  the call, moves the same elements and leaves the same storage: the results differ only by
  the \<^verbatim>\<open>addIndex\<close> on the facility.
\<close>

lemma addIndex_beyond_rank:
  assumes "numDims f = int N" "length (mIndices f) = N" "N < CPH_5_MAX_DIMS"
    and "mpDataSet f = Some h" "st h = Some ds" "length (ds_dims ds) = N"
  shows "take N (getIndices (addIndex ind f)) = getIndices f \<and>
         IOFacility_read junk (addIndex ind f, st)
           = map_outcome (apsnd (apfst (addIndex ind))) (IOFacility_read junk (f, st)) \<and>
         IOFacility_write junk src (addIndex ind f, st)
           = map_outcome (apfst (addIndex ind)) (IOFacility_write junk src (f, st))"
proof -
  have a: "addIndex ind f = f\<lparr>mIndices := mIndices f @ [ind]\<rparr>"
    using assms(1) by (simp add: addIndex_def Let_def)
  have h: "mpDataSet (addIndex ind f) = Some h"
    using assms(4) by (simp add: a)
  have s: "setupSpaces junk st (addIndex ind f) = map_outcome (addIndex ind) (setupSpaces junk st f)"
    using assms by (rule setupSpaces_extra_index)
  have sp: "mMemspace (addIndex ind g) = mMemspace g" "mFilespace (addIndex ind g) = mFilespace g" for g
    by (simp_all add: addIndex_def Let_def)
  have "take N (getIndices (addIndex ind f)) = getIndices f"
    using assms(2) by (simp add: a getIndices_def)
  moreover have "IOFacility_read junk (addIndex ind f, st)
           = map_outcome (apsnd (apfst (addIndex ind))) (IOFacility_read junk (f, st))"
    using assms(4,5) by (simp add: IOFacility_read_def h s sp split: outcome.splits)
  moreover have "IOFacility_write junk src (addIndex ind f, st)
           = map_outcome (apfst (addIndex ind)) (IOFacility_write junk src (f, st))"
    using assms(4,5) by (simp add: IOFacility_write_def h s sp split: outcome.splits)
  ultimately show ?thesis by simp
qed

lemma addIndex_beyond_rank_example:
  "take 1 (getIndices (addIndex 5 (IOFacility_new\<lparr>mpDataSet := Some 0, mType := 4, numDims := 1,
      mMaxDims := [3], mIndices := [2]\<rparr>))) = [2] \<and>
   IOFacility_read (\<lambda>_. 7) (addIndex 5 (IOFacility_new\<lparr>mpDataSet := Some 0, mType := 4, numDims := 1,
      mMaxDims := [3], mIndices := [2]\<rparr>),
      [0 \<mapsto> \<lparr>ds_dims = [3], ds_maxdims = [Some 3], ds_chunked = False, ds_fill = (0::nat),
              ds_data = (\<lambda>c. hd c + 10)\<rparr>])
     = Returned ([12], addIndex 5 (IOFacility_new\<lparr>mpDataSet := Some 0, mType := 4, numDims := 1,
      mMaxDims := [3], mIndices := [2], mMemspace := SimpleSpace [1] [0] [1],
      mFilespace := SimpleSpace [3] [2] [1]\<rparr>),
      [0 \<mapsto> \<lparr>ds_dims = [3], ds_maxdims = [Some 3], ds_chunked = False, ds_fill = (0::nat),
              ds_data = (\<lambda>c. hd c + 10)\<rparr>])"
proof -
  let ?f = "IOFacility_new\<lparr>mpDataSet := Some 0, mType := 4, numDims := 1,
      mMaxDims := [3], mIndices := [2]\<rparr>"
  let ?ds = "\<lparr>ds_dims = [3], ds_maxdims = [Some 3], ds_chunked = False, ds_fill = (0::nat),
              ds_data = (\<lambda>c. hd c + 10)\<rparr>"
  have r: "IOFacility_read (\<lambda>_. 7) (?f, [0 \<mapsto> ?ds])
     = Returned ([12], ?f\<lparr>mMemspace := SimpleSpace [1] [0] [1],
      mFilespace := SimpleSpace [3] [2] [1]\<rparr>, [0 \<mapsto> ?ds])"
    by (simp add: IOFacility_read_def setupSpaces_def select_spaces_def Let_def getSpace_def
        selectHyperslab_def IOFacility_new_def CPH_5_MAX_DIMS_def stack_offsets_def
        stack_extents_def to_hsize_def DataSet_read_def)
  have "take 1 (getIndices (addIndex 5 ?f)) = getIndices ?f \<and>
         IOFacility_read (\<lambda>_. 7) (addIndex 5 ?f, [0 \<mapsto> ?ds])
           = map_outcome (apsnd (apfst (addIndex 5))) (IOFacility_read (\<lambda>_. 7) (?f, [0 \<mapsto> ?ds])) \<and>
         IOFacility_write (\<lambda>_. 7) [] (addIndex 5 ?f, [0 \<mapsto> ?ds])
           = map_outcome (apfst (addIndex 5)) (IOFacility_write (\<lambda>_. 7) [] (?f, [0 \<mapsto> ?ds]))"
    by (rule addIndex_beyond_rank [where N = 1 and h = 0 and ds = ?ds])
      (simp_all add: CPH_5_MAX_DIMS_def)
  with r show ?thesis
    by (simp add: IOFacility_new_def getIndices_def)
qed

text \<open>
  Claim C1. The claim asks that an index beyond the rank is not retained. On a facility of
  rank 1 that holds the index 2, \<^verbatim>\<open>addIndex(5)\<close> leaves the indices 2, 5: the index is
  pushed before the count is tested, and the test has an empty body. The other guard of the
  function returns before the push: on a facility that was never initialised the call
  changes nothing.
\<close>

theorem addIndex_extra_index_retained:
  "getIndices (addIndex 5 (IOFacility_new\<lparr>mpDataSet := Some 0, mType := 4, numDims := 1,
      mMaxDims := [3], mIndices := [2]\<rparr>)) = [2, 5] \<and>
   addIndex 5 (IOFacility_new\<lparr>mpDataSet := Some 0, mType := 4, numDims := 1,
      mMaxDims := [3], mIndices := [2]\<rparr>)
     \<noteq> IOFacility_new\<lparr>mpDataSet := Some 0, mType := 4, numDims := 1,
      mMaxDims := [3], mIndices := [2]\<rparr> \<and>
   addIndex 5 IOFacility_new = IOFacility_new"
  by (simp add: addIndex_def getIndices_def IOFacility_new_def Let_def)
section \<open>Properties of the dataset accessors\<close>

lemma write_below_mDims:
  "write_below junk src (d, st) = Returned (d', st') \<or> write_below junk src (d, st) = Raised (d', st')
   \<Longrightarrow> mDims d' = mDims d"
  by (auto simp add: write_below_def IOFacility_write_def split: option.splits outcome.splits)

lemma index_root_mDims:
  "index_root i d = Returned d' \<or> index_root i d = Raised d' \<Longrightarrow> mDims d' = mDims d"
  by (auto simp add: index_root_def init_def split: if_splits)

text \<open>
  Claim C6. On a root-order dataset (the extent array is there at \<open>k\<close>), \<^verbatim>\<open>extendIR\<close>
  returns with the dataset object and the storage as they were when the dimensions were
  never set or no dataset handle is open; when the storage engine's extend raises, the
  exception leaves the object, and so the tracked extents, as they were; and when the call
  returns with anything changed, the engine's extend was issued on the open dataset, it
  returned, and the tracked extents are then the ones handed to it. In
  \<^verbatim>\<open>extendOnceAndWrite\<close> the extend step is \<^verbatim>\<open>extendIR(0, 1)\<close>: its exception is
  the call's, and after it the indexing and the write never change the tracked extents.
\<close>

theorem extend_after_engine:
  assumes k: "k < length (mDims d)"
  shows
  "(\<not> mDimsSet d \<or> mpDataSet_ds d = None \<longrightarrow> extendIR k n (d, st) = Returned (d, st)) \<and>
   (\<forall>d' st'. extendIR k n (d, st) = Raised (d', st') \<longrightarrow> d' = d) \<and>
   (\<forall>d' st'. extendIR k n (d, st) = Returned (d', st') \<longrightarrow>
      (d' = d \<and> st' = st) \<or>
      (\<exists>h ds ds'. mpDataSet_ds d = Some h \<and> st h = Some ds \<and>
         DataSet_extend ((mDims d)[k := to_hsize (int (mDims d ! k) + n)]) ds = Returned ds' \<and>
         st' = st(h \<mapsto> ds') \<and>
         d' = d\<lparr>mDims := (mDims d)[k := to_hsize (int (mDims d ! k) + n)]\<rparr>)) \<and>
   (\<forall>w'. extendIR 0 1 (d, st) = Raised w' \<longrightarrow> extendOnceAndWrite junk src (d, st) = Raised w') \<and>
   (\<forall>d1 st1 d2 st2. extendIR 0 1 (d, st) = Returned (d1, st1) \<longrightarrow>
      (extendOnceAndWrite junk src (d, st) = Returned (d2, st2) \<or>
       extendOnceAndWrite junk src (d, st) = Raised (d2, st2)) \<longrightarrow> mDims d2 = mDims d1)"
proof (intro conjI allI impI)
  assume "\<not> mDimsSet d \<or> mpDataSet_ds d = None"
  with k show "extendIR k n (d, st) = Returned (d, st)"
    by (auto simp add: extendIR_def Let_def)
next
  fix d' st' assume "extendIR k n (d, st) = Raised (d', st')"
  then show "d' = d"
    by (auto simp add: extendIR_def Let_def split: if_splits option.splits outcome.splits)
next
  fix d' st' assume "extendIR k n (d, st) = Returned (d', st')"
  then show "(d' = d \<and> st' = st) \<or>
      (\<exists>h ds ds'. mpDataSet_ds d = Some h \<and> st h = Some ds \<and>
         DataSet_extend ((mDims d)[k := to_hsize (int (mDims d ! k) + n)]) ds = Returned ds' \<and>
         st' = st(h \<mapsto> ds') \<and>
         d' = d\<lparr>mDims := (mDims d)[k := to_hsize (int (mDims d ! k) + n)]\<rparr>)"
    by (auto simp add: extendIR_def Let_def split: if_splits option.splits outcome.splits)
next
  fix w' assume "extendIR 0 1 (d, st) = Raised w'"
  then show "extendOnceAndWrite junk src (d, st) = Raised w'"
    by (simp add: extendOnceAndWrite_def)
next
  fix d1 st1 d2 st2
  assume e: "extendIR 0 1 (d, st) = Returned (d1, st1)"
    and r: "extendOnceAndWrite junk src (d, st) = Returned (d2, st2) \<or>
       extendOnceAndWrite junk src (d, st) = Raised (d2, st2)"
  show "mDims d2 = mDims d1"
  proof (cases "index_root (to_int (getDimSize d1 - 1)) d1")
    case (Returned d')
    with e r have "write_below junk src (d', st1) = Returned (d2, st2) \<or>
        write_below junk src (d', st1) = Raised (d2, st2)"
      by (simp add: extendOnceAndWrite_def Let_def)
    then have "mDims d2 = mDims d'" by (rule write_below_mDims)
    moreover from Returned have "mDims d' = mDims d1"
      by (intro index_root_mDims [where i = "to_int (getDimSize d1 - 1)"]) simp
    ultimately show ?thesis by simp
  next
    case (Raised d')
    with e r have "d2 = d'" by (simp add: extendOnceAndWrite_def Let_def)
    moreover from Raised have "mDims d' = mDims d1"
      by (intro index_root_mDims [where i = "to_int (getDimSize d1 - 1)"]) simp
    ultimately show ?thesis by simp
  next
    case Undefined
    with e r show ?thesis by (simp add: extendOnceAndWrite_def Let_def)
  qed
qed

theorem extend_after_engine_witness:
  "extendIR 0 1 (extend_d\<lparr>mpDataSet_ds := None\<rparr>, [0 \<mapsto> extend_ds]) = Returned (extend_d\<lparr>mpDataSet_ds := None\<rparr>, [0 \<mapsto> extend_ds]) \<and>
   (\<exists>ds'. DataSet_extend [3, 3, 0] extend_ds = Returned ds' \<and>
      extendIR 0 1 (extend_d, [0 \<mapsto> extend_ds]) = Returned (extend_d\<lparr>mDims := [3, 3, 0]\<rparr>, [0 \<mapsto> ds']))"
proof -
  have u: "\<not> mDimsSet (extend_d\<lparr>mpDataSet_ds := None\<rparr>) \<or> mpDataSet_ds (extend_d\<lparr>mpDataSet_ds := None\<rparr>) = None"
    by simp
  have e: "\<exists>st'. extendIR 0 1 (extend_d, [0 \<mapsto> extend_ds]) = Returned (extend_d\<lparr>mDims := [3, 3, 0]\<rparr>, st')"
    by (simp add: extendIR_def extend_d_def extend_ds_def DataSet_extend_def Let_def to_hsize_id)
  then obtain st' where
    e': "extendIR 0 1 (extend_d, [0 \<mapsto> extend_ds]) = Returned (extend_d\<lparr>mDims := [3, 3, 0]\<rparr>, st')"
    by blast
  have n: "extend_d\<lparr>mDims := [3, 3, 0]\<rparr> \<noteq> extend_d"
    by (simp add: extend_d_def)
  have m: "(mDims extend_d)[0 := to_hsize (int (mDims extend_d ! 0) + 1)] = [3, 3, 0]"
    by (simp add: extend_d_def to_hsize_id)
  have k: "0 < length (mDims (extend_d\<lparr>mpDataSet_ds := None\<rparr>))" "0 < length (mDims extend_d)"
    by (simp_all add: extend_d_def)
  note t = extend_after_engine [OF k(1), of 1 "[0 \<mapsto> extend_ds]"]
    extend_after_engine [OF k(2), of 1 "[0 \<mapsto> extend_ds]"]
  from t(1) u have "extendIR 0 1 (extend_d\<lparr>mpDataSet_ds := None\<rparr>, [0 \<mapsto> extend_ds])
      = Returned (extend_d\<lparr>mpDataSet_ds := None\<rparr>, [0 \<mapsto> extend_ds])"
    by blast
  moreover from t(2) e' n m have "\<exists>ds'. DataSet_extend [3, 3, 0] extend_ds = Returned ds' \<and>
      extendIR 0 1 (extend_d, [0 \<mapsto> extend_ds]) = Returned (extend_d\<lparr>mDims := [3, 3, 0]\<rparr>, [0 \<mapsto> ds'])"
    by (auto simp add: extend_d_def)
  ultimately show ?thesis by simp
qed

lemma upt_small: "[0..<4] = [0, 1, 2, 3]" "[0..<3] = [0, 1, 2]" "[0..<2] = [0, 1]"
  by (simp_all add: numeral_3_eq_3 numeral_2_eq_2 eval_nat_numeral)

lemma rep2: "replicate 2 x = [x, x]"
  by (simp add: numeral_2_eq_2)

lemma assign_dimsMatch: "dimsMatch assign_this assign_rhs"
  by (simp add: dimsMatch_def assign_this_def assign_rhs_def getMaxDims_def getMaxDimSizeIR_def
      upt_small to_int_id to_hsize_id)

lemma assign_totals: "getTotalNumElements assign_this = 10" "getTotalNumElements assign_rhs = 12"
  "map to_hsize (getDims assign_rhs) = [4, 3]"
  by (simp_all add: getTotalNumElements_def assign_this_def assign_rhs_def getDims_def getDimSizeIR_def
      upt_small to_int_id to_hsize_id)

lemma assign_resize: "\<exists>ds. resizeToR 0 [4, 3] (assign_this, assign_store)
   = Returned (assign_this\<lparr>mDims := [4, 5, 0]\<rparr>, assign_store(0 \<mapsto> ds)) \<and> ds_dims ds = [4, 5]"
  apply (simp add: assign_this_def assign_store_def assign_this_ds_def getDimSizeIR_def extendIR_def
      DataSet_extend_def Let_def to_int_id to_hsize_id)
  apply (intro exI conjI)
   apply (rule refl)
  apply simp
  done

lemma take_stack_offsets:
  "n \<le> 16 \<Longrightarrow> take n (stack_offsets junk) = replicate n 0"
  by (rule nth_equalityI) (simp_all add: stack_offsets_def CPH_5_MAX_DIMS_def)

lemma setupSpaces_no_index:
  assumes "mIndices f = []" "numDims f = int n" "0 < n" "n \<le> 16" "length (mMaxDims f) = n"
    and "mpDataSet f = Some h" "st h = Some ds" "length (ds_dims ds) = n"
  shows "setupSpaces junk st f =
     Returned (f\<lparr>mFilespace := SimpleSpace (ds_dims ds) (replicate n 0) (map to_hsize (mMaxDims f)),
                mMemspace := SimpleSpace (map to_hsize (mMaxDims f)) (replicate n 0)
                               (map to_hsize (mMaxDims f))\<rparr>)"
proof -
  have e: "map (\<lambda>i. to_hsize (mMaxDims f ! i)) [0..<n] = map to_hsize (mMaxDims f)"
    using assms(5) by (intro nth_equalityI) simp_all
  have ne: "ds_dims ds \<noteq> []"
    using assms(3,8) by auto
  show ?thesis
    using assms
    by (simp add: setupSpaces_def select_spaces_def Let_def getSpace_def selectHyperslab_def
        CPH_5_MAX_DIMS_def take_stack_offsets e ne)
qed

lemma assign_read: "st 1 = Some assign_rhs_ds \<Longrightarrow> \<exists>rhs'. readRaw junk (assign_rhs, st)
   = Returned ([0, 1, 2, 10, 11, 12, 20, 21, 22, 30, 31, 32 :: nat], rhs', st)"
  unfolding readRaw_def IOFacility_read_def
  apply (simp add: init_def assign_rhs_def)
  apply (subst setupSpaces_no_index [where n = 2 and h = 1 and ds = assign_rhs_ds])
  apply (simp_all add: DataSet_read_def assign_rhs_ds_def rep2 upt_small to_int_id to_hsize_id)
  done

lemma assign_write: "st 0 = Some ds \<Longrightarrow> ds_dims ds = [4, 5] \<Longrightarrow> length buf = 12 \<Longrightarrow>
   writeRaw junk buf (assign_this\<lparr>mDims := [4, 5, 0]\<rparr>, st) = Undefined"
  unfolding writeRaw_def IOFacility_write_def
  apply (simp add: init_def assign_this_def)
  apply (subst setupSpaces_no_index [where n = 2 and h = 0 and ds = ds])
  apply (simp_all add: DataSet_write_def rep2 to_int_id to_hsize_id)
  done

text \<open>
  Claim C8 at a concrete input. The destination's maximum extents (4 by 5) are not smaller
  than the source's (4 by 3), so the assignment is not refused; the destination has fewer
  elements (10 against 12), so it is resized, each dimension only upwards, to 4 by 5; the
  buffer holds the source's 12 elements and the write takes 20 from it: the source's
  contents are not what the destination receives, the call reads past the buffer.
\<close>

theorem assign_overread: "assign (\<lambda>_. 7) (\<lambda>_. 0) (assign_this, assign_rhs, assign_store) = Undefined"
proof -
  from assign_resize obtain ds where
    z: "resizeToR 0 [4, 3] (assign_this, assign_store)
          = Returned (assign_this\<lparr>mDims := [4, 5, 0]\<rparr>, assign_store(0 \<mapsto> ds))"
    and d: "ds_dims ds = [4, 5]"
    by blast
  let ?st1 = "assign_store(0 \<mapsto> ds)"
  have s1: "?st1 1 = Some assign_rhs_ds"
    by (simp add: assign_store_def)
  from assign_read [where st = ?st1 and junk = "\<lambda>_. 7", OF s1] obtain rhs' where
    r: "readRaw (\<lambda>_. 7) (assign_rhs, ?st1)
          = Returned ([0, 1, 2, 10, 11, 12, 20, 21, 22, 30, 31, 32 :: nat], rhs', ?st1)"
    by blast
  have w: "writeRaw (\<lambda>_. 7) buf (assign_this\<lparr>mDims := [4, 5, 0]\<rparr>, ?st1) = Undefined"
    if "length buf = 12" for buf :: "nat list"
    using that by (intro assign_write [where ds = ds]) (simp_all add: d)
  have t: "mType_ds assign_this = 4" "mType_ds assign_rhs = 4"
    by (simp_all add: assign_this_def assign_rhs_def)
  show ?thesis
    unfolding assign_def
    by (simp add: assign_dimsMatch assign_totals z r w t to_int_id to_hsize_id Let_def
        del: fun_upd_apply resizeToR.simps)
qed

text \<open>
  The refusal itself is as the claim says: a destination whose maximum extent is below the
  source's current extent in some dimension fails the test (the source's current extent
  never exceeds its maximum), and a failed test returns with both datasets and the storage
  untouched.
\<close>

lemma assign_refused:
  "\<not> dimsMatch this rhs \<Longrightarrow> assign junk heap (this, rhs, st) = Returned (this, rhs, st)"
  by (simp add: assign_def)

lemma smaller_maximum_fails_dimsMatch:
  assumes "i < nDims this" "nDims rhs = nDims this" "mDimsSet rhs"
    and "mMaxDims_ds this ! i < mDims rhs ! i" "mDims rhs ! i \<le> mMaxDims_ds rhs ! i"
    and "mMaxDims_ds rhs ! i < 2147483648 \<or> mMaxDims_ds rhs ! i = H5S_UNLIMITED"
  shows "\<not> dimsMatch this rhs"
proof -
  have "to_hsize (getMaxDims rhs ! i) = mMaxDims_ds rhs ! i"
    using assms(1,2,3,6)
    by (auto simp add: getMaxDims_def getMaxDimSizeIR_def to_hsize_to_int_nat H5S_UNLIMITED_def
        to_int_def to_hsize_def)
  with assms(4,5) have "\<not> to_hsize (getMaxDims rhs ! i) \<le> mMaxDims_ds this ! i"
    by simp
  with assms(1) show ?thesis
    by (auto simp add: dimsMatch_def list_all_iff)
qed

section \<open>Layout of a compound type\<close>

lemma total_children_sum:
  assumes "\<forall>m\<in>set ms. 0 \<le> getSize m" "0 \<le> ret" "ret + sum_list (map getSize ms) < 2147483648"
  shows "getTotalMemorySize_children ms ret = ret + sum_list (map getSize ms)"
  using assms
proof (induction ms arbitrary: ret)
  case Nil
  then show ?case by simp
next
  case (Cons m ms)
  have nn: "0 \<le> sum_list (map getSize ms)"
    using Cons.prems(1) by (intro sum_list_nonneg) auto
  have m: "0 \<le> getSize m" using Cons.prems(1) by simp
  have "to_int (ret + getSize m) = ret + getSize m"
    using Cons.prems(2,3) m nn by (intro to_int_id) simp_all
  moreover have "getTotalMemorySize_children ms (ret + getSize m)
      = (ret + getSize m) + sum_list (map getSize ms)"
    using Cons.prems m by (intro Cons.IH) simp_all
  ultimately show ?case by simp
qed

lemma size_fold_sum:
  assumes "\<forall>m\<in>set ms. 0 \<le> getSize m" "int s + sum_list (map getSize ms) < 18446744073709551616"
  shows "fold (\<lambda>m s. (s + to_hsize (getSize m)) mod 18446744073709551616) ms s
         = s + nat (sum_list (map getSize ms))"
  using assms
proof (induction ms arbitrary: s)
  case Nil
  then show ?case by simp
next
  case (Cons m ms)
  have nn: "0 \<le> sum_list (map getSize ms)"
    using Cons.prems(1) by (intro sum_list_nonneg) auto
  have m: "0 \<le> getSize m" using Cons.prems(1) by simp
  have h: "to_hsize (getSize m) = nat (getSize m)"
    using Cons.prems(2) m nn by (intro to_hsize_id) simp_all
  have b: "(s + nat (getSize m)) mod 18446744073709551616 = s + nat (getSize m)"
    using Cons.prems(2) m nn by simp
  have "fold (\<lambda>m s. (s + to_hsize (getSize m)) mod 18446744073709551616) ms (s + nat (getSize m))
      = (s + nat (getSize m)) + nat (sum_list (map getSize ms))"
    using Cons.prems m by (intro Cons.IH) simp_all
  then show ?case using m nn by (simp add: h b nat_add_distrib)
qed

lemma insert_children_layout:
  assumes "insert_children ms off (CompType n pre) = Some ct"
    and "\<forall>m\<in>set ms. 0 \<le> getSize m"
    and "int off + sum_list (map getSize ms) < 18446744073709551616"
  shows "ct = CompType n (pre @ map (\<lambda>i. (getName (ms ! i),
                 off + nat (sum_list (map getSize (take i ms))), getType (ms ! i))) [0 ..< length ms])"
  using assms
proof (induction ms arbitrary: off pre)
  case Nil
  then show ?case by simp
next
  case (Cons m ms)
  have nn: "0 \<le> sum_list (map getSize ms)"
    using Cons.prems(2) by (intro sum_list_nonneg) auto
  have m: "0 \<le> getSize m" using Cons.prems(2) by simp
  have h: "to_hsize (getSize m) = nat (getSize m)"
    using Cons.prems(3) m nn by (intro to_hsize_id) simp_all
  have b: "(off + nat (getSize m)) mod 18446744073709551616 = off + nat (getSize m)"
    using Cons.prems(3) m nn by simp
  from Cons.prems(1) have rest: "insert_children ms (off + nat (getSize m))
         (CompType n (pre @ [(getName m, off, getType m)])) = Some ct"
    by (simp add: h b split: option.splits if_splits)
  have "ct = CompType n ((pre @ [(getName m, off, getType m)]) @
          map (\<lambda>i. (getName (ms ! i), (off + nat (getSize m)) + nat (sum_list (map getSize (take i ms))),
                     getType (ms ! i))) [0 ..< length ms])"
    using rest Cons.prems(2,3) m by (intro Cons.IH) simp_all
  moreover have "map (\<lambda>i. (getName ((m # ms) ! i),
                 off + nat (sum_list (map getSize (take i (m # ms)))), getType ((m # ms) ! i)))
            [0 ..< length (m # ms)]
        = (getName m, off, getType m) #
          map (\<lambda>i. (getName (ms ! i), (off + nat (getSize m)) + nat (sum_list (map getSize (take i ms))),
                     getType (ms ! i))) [0 ..< length ms]"
  proof -
    have "nat (getSize m + sum_list (map getSize (take i ms)))
        = nat (getSize m) + nat (sum_list (map getSize (take i ms)))" for i
    proof -
      have "0 \<le> sum_list (map getSize (take i ms))"
        using Cons.prems(2) by (intro sum_list_nonneg) (auto dest: in_set_takeD)
      with m show ?thesis by (simp add: nat_add_distrib)
    qed
    then show ?thesis
      by (simp add: upt_conv_Cons map_Suc_upt [symmetric] del: upt_Suc)
  qed
  ultimately show ?case by simp
qed


lemma registerMember_fold:
  "mChildren (fold registerMember ms obj) = mChildren obj @ ms"
  by (induction ms arbitrary: obj) (simp_all add: registerMember_def)

text \<open>
  Claim C5. For a record whose members \<open>ms\<close> were registered one after the other, the
  compound type that \<^verbatim>\<open>getCompType\<close> builds lists the members in that order, its size is
  the sum of the members' sizes, the offset of the \<open>i\<close>-th member is the sum of the sizes of
  the members before it, and \<^verbatim>\<open>getTotalMemorySize\<close> returns the same sum. The sizes are
  those \<^verbatim>\<open>getSize\<close> reports as \<^verbatim>\<open>int\<close>; the statement is for sizes that are not
  negative and a sum that an \<^verbatim>\<open>int\<close> holds, and for a compound type the engine accepts.
\<close>

theorem compound_layout:
  assumes "obj = fold registerMember ms (CPH5CompType [] f a)"
    and "\<forall>m\<in>set ms. 0 \<le> getSize m"
    and "sum_list (map getSize ms) < 2147483648"
    and "getCompType obj = Some ct"
  shows "mChildren obj = ms \<and>
         ct = CompType (nat (sum_list (map getSize ms)))
                (map (\<lambda>i. (getName (ms ! i), nat (sum_list (map getSize (take i ms))), getType (ms ! i)))
                   [0 ..< length ms]) \<and>
         getTotalMemorySize obj = sum_list (map getSize ms)"
proof -
  have ch: "mChildren obj = ms"
    using assms(1) by (simp add: registerMember_fold)
  have sz: "fold (\<lambda>m s. (s + to_hsize (getSize m)) mod 18446744073709551616) ms 0
            = nat (sum_list (map getSize ms))"
    using size_fold_sum [of ms 0] assms(2,3) by simp
  from assms(4) have ins: "insert_children ms 0 (CompType (nat (sum_list (map getSize ms))) []) = Some ct"
    by (simp add: getCompType_def ch sz CompType_create_def split: if_splits)
  have "ct = CompType (nat (sum_list (map getSize ms)))
          ([] @ map (\<lambda>i. (getName (ms ! i), 0 + nat (sum_list (map getSize (take i ms))), getType (ms ! i)))
                   [0 ..< length ms])"
    using ins assms(2,3) by (intro insert_children_layout) simp_all
  moreover have "getTotalMemorySize obj = sum_list (map getSize ms)"
  proof -
    obtain c f' a' where o: "obj = CPH5CompType c f' a'" by (cases obj)
    with ch have "c = ms" by simp
    with o show ?thesis
      using total_children_sum [of ms 0] assms(2,3) by simp
  qed
  ultimately show ?thesis using ch by simp
qed

lemma layout_sizes: "map getSize layout_members = [4, 24, 8]"
  by (simp add: layout_members_def to_int_def)

lemma layout_nonneg: "\<forall>m\<in>set layout_members. 0 \<le> getSize m"
  by (simp add: layout_members_def to_int_def)

lemma layout_getCompType:
  "getCompType (CPH5CompType layout_members NullFacility False) = Some layout_type"
  by (simp add: getCompType_def layout_members_def layout_type_def CompType_create_def
        to_int_def to_hsize_def)

theorem compound_layout_witness:
  "getCompType (fold registerMember layout_members (CPH5CompType [] NullFacility False)) = Some layout_type \<and>
   layout_type = CompType 36
       (map (\<lambda>i. (getName (layout_members ! i),
                    nat (sum_list (map getSize (take i layout_members))),
                    getType (layout_members ! i))) [0 ..< 3]) \<and>
   getTotalMemorySize (fold registerMember layout_members (CPH5CompType [] NullFacility False)) = 36"
proof -
  have f: "fold registerMember layout_members (CPH5CompType [] NullFacility False)
           = CPH5CompType layout_members NullFacility False"
    by (simp add: layout_members_def registerMember_def)
  have l: "length layout_members = 3" by (simp add: layout_members_def)
  show ?thesis
    using compound_layout [where ms = layout_members and f = NullFacility and a = False
        and ct = layout_type, OF refl]
    by (simp add: layout_sizes f layout_getCompType l layout_nonneg)
qed

section \<open>Writing one element of an array of values\<close>

lemma elem_bound:
  fixes i n sz t :: nat
  assumes "i < n" "t < sz"
  shows "i * sz + t < sz * n"
proof -
  have "i * sz + t < i * sz + sz" using assms(2) by simp
  also have "\<dots> = Suc i * sz" by simp
  also have "\<dots> \<le> n * sz" using assms(1) by (intro mult_le_mono1) simp
  finally show ?thesis by (simp add: mult.commute)
qed

lemma elem_apart:
  fixes i j sz t :: nat
  assumes "j \<noteq> i" "t < sz"
  shows "\<not> (i * sz \<le> j * sz + t \<and> j * sz + t < i * sz + sz)"
proof (cases "j < i")
  case True
  have "j * sz + t < Suc j * sz" using assms(2) by simp
  also have "\<dots> \<le> i * sz" using True by (intro mult_le_mono1) simp
  finally show ?thesis by simp
next
  case False
  with assms(1) have "Suc i \<le> j" by simp
  then have "Suc i * sz \<le> j * sz" by (intro mult_le_mono1)
  then show ?thesis by simp
qed

lemma length_store_elem: "length (store_elem sz i val bs) = length bs"
  by (simp add: store_elem_def)

lemma load_store_same:
  assumes "i < n" "length bs = sz * n" "length val = sz"
  shows "load_elem sz i (store_elem sz i val bs) = val"
proof (rule nth_equalityI)
  show "length (load_elem sz i (store_elem sz i val bs)) = length val"
    using assms(3) by (simp add: load_elem_def)
next
  fix t assume "t < length (load_elem sz i (store_elem sz i val bs))"
  then have t: "t < sz" by (simp add: load_elem_def)
  then have "i * sz + t < length bs" using assms(1,2) by (simp add: elem_bound)
  then show "load_elem sz i (store_elem sz i val bs) ! t = val ! t"
    using t by (simp add: load_elem_def store_elem_def)
qed

lemma load_store_other:
  assumes "j < n" "j \<noteq> i" "length bs = sz * n"
  shows "load_elem sz j (store_elem sz i val bs) = load_elem sz j bs"
proof (rule nth_equalityI)
  show "length (load_elem sz j (store_elem sz i val bs)) = length (load_elem sz j bs)"
    by (simp add: load_elem_def)
next
  fix t assume "t < length (load_elem sz j (store_elem sz i val bs))"
  then have t: "t < sz" by (simp add: load_elem_def)
  then have b: "j * sz + t < length bs" using assms(1,3) by (simp add: elem_bound)
  have ap: "(i * sz \<le> j * sz + t \<and> j * sz + t < i * sz + sz) = False"
    using elem_apart [OF assms(2) t] by simp
  show "load_elem sz j (store_elem sz i val bs) ! t = load_elem sz j bs ! t"
    using t b by (simp add: load_elem_def store_elem_def ap)
qed

text \<open>
  \<^verbatim>\<open>write(val, index)\<close> against the member's own memory. \<open>prior\<close> is what the array
  holds in memory once the pending first read, if any, is done. The call stores \<open>val\<close> at
  the index and writes the whole array: every other element is as in \<open>prior\<close>, and through
  a facility bound to a dataset the file receives all \<open>n\<close> elements of the new array for
  this member.
\<close>

lemma array_element_write:
  assumes "0 \<le> index" and "index < int n"
    and "length val = sz"
    and "prior = (if rd then pMT else fst (read_into io (file (path @ [name])) (pMT, rd)))"
    and "length prior = sz * n"
  shows "\<exists>new rd' file' signal.
           write_index io file path val index (CompMemberArray name b sz n pMT rd a)
             = Some (CompMemberArray name b sz n new rd' a, file', signal) \<and>
           length new = sz * n \<and>
           load_elem sz (nat index) new = val \<and>
           (\<forall>j<n. j \<noteq> nat index \<longrightarrow> load_elem sz j new = load_elem sz j prior) \<and>
           (io = BoundFacility \<longrightarrow>
              file' = file(path @ [name] := new) \<and> \<not> signal) \<and>
           (io \<noteq> BoundFacility \<longrightarrow> file' = file)"
proof -
  define new where "new = store_elem sz (nat index) val prior"
  define rd' where "rd' = (if rd then rd else snd (read_into io (file (path @ [name])) (pMT, rd)))"
  have len: "length new = sz * n"
    using assms(5) by (simp add: new_def length_store_elem)
  have i: "nat index < n" using assms(1,2) by simp
  have full: "take (sz * n) new @ drop (sz * n) new = new" by simp
  have rp: "(if \<not> rd then read_into io (file (path @ [name])) (pMT, rd) else (pMT, rd)) = (prior, rd')"
    by (simp add: assms(4) rd'_def)
  have w: "write_index io file path val index (CompMemberArray name b sz n pMT rd a)
        = Some (CompMemberArray name b sz n new rd' a,
                fst (write_through io a file (path @ [name]) new),
                snd (write_through io a file (path @ [name]) new))"
    using assms(1,2)
    by (simp only: write_index.simps rp prod.case new_def [symmetric] write_array.simps Let_def full)
       (simp add: split_beta)
  have same: "load_elem sz (nat index) new = val"
    unfolding new_def using i assms(5,3) by (rule load_store_same)
  have other: "\<forall>j<n. j \<noteq> nat index \<longrightarrow> load_elem sz j new = load_elem sz j prior"
    unfolding new_def using assms(5) by (simp add: load_store_other)
  have bound: "io = BoundFacility \<longrightarrow>
      fst (write_through io a file (path @ [name]) new) = file(path @ [name] := new) \<and>
      \<not> snd (write_through io a file (path @ [name]) new)"
    by simp
  have unbound: "io \<noteq> BoundFacility \<longrightarrow> fst (write_through io a file (path @ [name]) new) = file"
    by (cases io) simp_all
  show ?thesis
    using w len same other bound unbound by blast
qed


lemma array_element_write_example:
  "\<exists>new rd' file' signal.
     write_index BoundFacility (\<lambda>k. []) [] ''xy'' 1
         (CompMemberArray ''v'' (AtomType H5T_INTEGER H5T_SGN_2 2) 2 3 ''aabbcc'' True False)
       = Some (CompMemberArray ''v'' (AtomType H5T_INTEGER H5T_SGN_2 2) 2 3 new rd' False, file', signal) \<and>
     load_elem 2 0 new = ''aa'' \<and> load_elem 2 1 new = ''xy'' \<and> load_elem 2 2 new = ''cc'' \<and>
     file' [''v''] = new"
proof -
  have u: "[0 ..< 2] = [0, Suc 0]" by (simp add: upt_conv_Cons)
  have p: "load_elem 2 0 ''aabbcc'' = ''aa''" "load_elem 2 2 ''aabbcc'' = ''cc''"
    by (simp_all add: load_elem_def u)
  from array_element_write [where index = 1 and n = 3 and val = "''xy''" and sz = 2
      and prior = "''aabbcc''" and rd = True and pMT = "''aabbcc''" and io = BoundFacility
      and ?file = "\<lambda>k. []" and path = "[]" and name = "''v''"
      and b = "AtomType H5T_INTEGER H5T_SGN_2 2" and a = False]
  obtain new rd' file' signal where
    w: "write_index BoundFacility (\<lambda>k. []) [] ''xy'' 1
         (CompMemberArray ''v'' (AtomType H5T_INTEGER H5T_SGN_2 2) 2 3 ''aabbcc'' True False)
       = Some (CompMemberArray ''v'' (AtomType H5T_INTEGER H5T_SGN_2 2) 2 3 new rd' False, file', signal)"
    and s: "load_elem 2 (nat 1) new = ''xy''"
    and o: "\<forall>j<3. j \<noteq> nat 1 \<longrightarrow> load_elem 2 j new = load_elem 2 j ''aabbcc''"
    and f: "file' = (\<lambda>k. [])([] @ [''v''] := new)"
    by auto
  from o have "load_elem 2 0 new = ''aa''" "load_elem 2 2 new = ''cc''"
    by (simp_all add: p)
  moreover from s have "load_elem 2 1 new = ''xy''" by simp
  moreover from f have "file' [''v''] = new" by simp
  ultimately show ?thesis using w by blast
qed

text \<open>
  Claim C7. The claim asks that the elements stored at the other indices keep their
  contents. The member never reads again once \<^verbatim>\<open>mReadDone\<close> is set, also when the
  dataset has moved to another record. First \<open>v[1] = xy\<close> with record 0 selected: the
  array is read (\<open>aa bb cc\<close>) and record 0 becomes \<open>aa xy cc\<close>. Then \<open>v[1] = uv\<close> with
  record 1 selected, which holds \<open>pp qq rr\<close>: nothing is read, and record 1 becomes
  \<open>aa uv cc\<close>; its elements 0 and 2 are now those of record 0.
\<close>

theorem element_write_stale_cache:
  "write_index BoundFacility record0_file [] ''xy'' 1 cached_array
     = Some (CompMemberArray ''v'' (AtomType H5T_INTEGER H5T_SGN_2 2) 2 3 ''aaxycc'' True False,
             record0_file([''v''] := ''aaxycc''), False) \<and>
   write_index BoundFacility record1_file [] ''uv'' 1
       (CompMemberArray ''v'' (AtomType H5T_INTEGER H5T_SGN_2 2) 2 3 ''aaxycc'' True False)
     = Some (CompMemberArray ''v'' (AtomType H5T_INTEGER H5T_SGN_2 2) 2 3 ''aauvcc'' True False,
             record1_file([''v''] := ''aauvcc''), False) \<and>
   load_elem 2 0 (record1_file [''v'']) = ''pp'' \<and> load_elem 2 2 (record1_file [''v'']) = ''rr'' \<and>
   load_elem 2 0 ''aauvcc'' = ''aa'' \<and> load_elem 2 2 ''aauvcc'' = ''cc''"
proof -
  have u: "[0 ..< 6] = [0, 1, 2, 3, 4, 5]" "[0 ..< 2] = [0, 1]"
    by (simp_all add: upt_conv_Cons)
  have s0: "store_elem 2 (Suc 0) ''xy'' ''aabbcc'' = ''aaxycc''"
    by (simp add: store_elem_def u)
  have s1: "store_elem 2 (Suc 0) ''uv'' ''aaxycc'' = ''aauvcc''"
    by (simp add: store_elem_def u)
  have l: "load_elem 2 0 ''ppqqrr'' = ''pp''" "load_elem 2 2 ''ppqqrr'' = ''rr''"
    "load_elem 2 0 ''aauvcc'' = ''aa''" "load_elem 2 2 ''aauvcc'' = ''cc''"
    by (simp_all add: load_elem_def u)
  show ?thesis
    by (simp add: cached_array_def record0_file_def [abs_def] record1_file_def [abs_def] s0 s1 l Let_def)
qed

section \<open>Serialising a record and reading it back\<close>




lemma memcpy_from_0: "memcpy_from mem p 0 = []"
  by (simp add: memcpy_from_def)

lemma memcpy_from_add:
  "memcpy_from mem p (a + b) = memcpy_from mem p a @ memcpy_from mem (p + a) b"
proof (rule nth_equalityI)
  show "length (memcpy_from mem p (a + b)) = length (memcpy_from mem p a @ memcpy_from mem (p + a) b)"
    by (simp add: memcpy_from_def)
next
  fix i assume "i < length (memcpy_from mem p (a + b))"
  then have "i < a + b" by (simp add: memcpy_from_def)
  then have "\<not> i < a \<Longrightarrow> i - a < b" by simp
  with \<open>i < a + b\<close>
  show "memcpy_from mem p (a + b) ! i = (memcpy_from mem p a @ memcpy_from mem (p + a) b) ! i"
    by (cases "i < a") (simp_all add: memcpy_from_def nth_append)
qed

lemma length_memcpy_from: "length (memcpy_from mem p n) = n"
  by (simp add: memcpy_from_def)





lemma latch_bytes:
  shows "flatten (values_member (fst (latchAndMove m c)))
           = memcpy_from (fst c) (snd c) (shp_size (shape_member m)) \<and>
         snd (latchAndMove m c) = snd c + shp_size (shape_member m) \<and>
         shape_of (values_member (fst (latchAndMove m c))) = shape_member m"
    and "flatten (Rec (values_children (fst (latchAllAndMove_children ms c))))
           = memcpy_from (fst c) (snd c) (shp_size (SRec (shape_children ms))) \<and>
         snd (latchAllAndMove_children ms c) = snd c + shp_size (SRec (shape_children ms)) \<and>
         shape_of (Rec (values_children (fst (latchAllAndMove_children ms c)))) = SRec (shape_children ms)"
    and "flatten (Rec (values_elems n (fst (latch_elems n pmT c))))
           = memcpy_from (fst c) (snd c) (shp_size (SRec (shape_elems n pmT))) \<and>
         snd (latch_elems n pmT c) = snd c + shp_size (SRec (shape_elems n pmT)) \<and>
         shape_of (Rec (values_elems n (fst (latch_elems n pmT c)))) = SRec (shape_elems n pmT)"
proof (induction m c and ms c and n pmT c
    rule: latchAndMove_latchAllAndMove_children_latch_elems.induct)
  case (1 name t mT a c)
  show ?case by (simp add: length_memcpy_from)
next
  case (2 name t children f a' c)
  then show ?case by (simp add: split_beta)
next
  case (3 name b sz n pMT rd a c)
  show ?case by (simp add: length_memcpy_from)
next
  case (4 name b n pmT rd di a c)
  then show ?case by (simp add: split_beta)
next
  case (5 c)
  show ?case by (simp add: memcpy_from_0)
next
  case (6 m ms c)
  show ?case
    using "6.IH"(1) "6.IH"(2) [OF prod.collapse]
    by (simp add: split_beta memcpy_from_add add.assoc)
next
  case (7 n c)
  show ?case by (simp add: memcpy_from_0)
next
  case (8 n children f a es c)
  show ?case
  proof (cases "n = 0")
    case True
    then show ?thesis by (simp add: memcpy_from_0)
  next
    case False
    then show ?thesis
      using "8.IH"(1) [OF False] "8.IH"(2) [OF False prod.collapse]
      by (simp add: split_beta memcpy_from_add add.assoc)
  qed
qed







section \<open>The spare object of an array of records\<close>

lemma setArrayParent_elems_tail:
  "length (setArrayParent_elems q n es) = length es \<and>
   drop n (setArrayParent_elems q n es) = drop n es"
proof (induction es arbitrary: n)
  case Nil
  show ?case by simp
next
  case (Cons e es)
  show ?case
    using Cons.IH [of "n - 1"] by (cases "n = 0") (simp_all add: drop_Cons')
qed

lemma latch_elems_tail:
  "length (fst (latch_elems n es c)) = length es \<and> drop n (fst (latch_elems n es c)) = drop n es"
proof (induction es arbitrary: n c)
  case Nil
  show ?case by simp
next
  case (Cons e es)
  obtain children f a where e: "e = CPH5CompType children f a" by (cases e)
  show ?case
    using Cons.IH [of "n - 1" "(fst c, snd (latchAllAndMove_children children c))"]
    by (cases "n = 0") (simp_all add: e drop_Cons' split_beta)
qed

lemma nth_from_drop:
  assumes "drop n xs = drop n ys" and "length xs = length ys" and "n < length ys"
  shows "xs ! n = ys ! n"
proof -
  have "xs ! n = hd (drop n xs)" using assms(2,3) by (simp add: hd_drop_conv_nth)
  also have "\<dots> = hd (drop n ys)" using assms(1) by simp
  also have "\<dots> = ys ! n" using assms(3) by (simp add: hd_drop_conv_nth)
  finally show ?thesis .
qed

lemma new_array_spare:
  "length (elements_of (new_array name b n T0)) = n + 1 \<and> elements_of (new_array name b n T0) ! n = T0"
proof -
  let ?es = "replicate (n + 1) T0"
  have t: "length (setArrayParent_elems True n ?es) = length ?es"
    "drop n (setArrayParent_elems True n ?es) = drop n ?es"
    using setArrayParent_elems_tail [of True n ?es] by simp_all
  have e: "elements_of (new_array name b n T0) = setArrayParent_elems True n ?es"
    by (simp only: new_array_def elements_of.simps)
  have l: "length ?es = n + 1" by (simp only: length_replicate)
  have r: "?es ! n = T0" by (rule nth_replicate) simp
  have "setArrayParent_elems True n ?es ! n = ?es ! n"
    using t by (intro nth_from_drop) simp_all
  with r have "setArrayParent_elems True n ?es ! n = T0" by (simp only:)
  moreover from t(1) l have "length (setArrayParent_elems True n ?es) = n + 1" by (simp only:)
  ultimately show ?thesis unfolding e by blast
qed

lemma readAll_elements:
  assumes "shp_size (SRec (shape_elems n pmT))
             \<le> (if io = BoundFacility then length (fl (path @ [name])) else H5_getSize b * n)"
  shows "\<exists>pmT1 rd1. readAll io fl path (CompMemberArrayInh name b n pmT rd di a)
             = Some (CompMemberArrayInh name b n pmT1 rd1 di a) \<and>
           length pmT1 = length pmT \<and> drop n pmT1 = drop n pmT"
proof (cases "io = NoParent \<or> a \<or> io = NullFacility")
  case True
  then show ?thesis by auto
next
  case False
  define buf where "buf = (if io = BoundFacility then fl (path @ [name])
                           else replicate (H5_getSize b * n) (CHR 0x00))"
  define L where "L = latch_elems n pmT (\<lambda>a. buf ! a, 0)"
  have ext: "snd L = shp_size (SRec (shape_elems n pmT))"
    using latch_bytes(3) [of n pmT "(\<lambda>a. buf ! a, 0)"] by (simp add: L_def)
  have fit: "\<not> length buf < snd L"
    using assms by (simp add: ext buf_def split: if_splits)
  have "readAll io fl path (CompMemberArrayInh name b n pmT rd di a)
          = Some (CompMemberArrayInh name b n (fst L) True di a)"
    using False fit by (simp add: buf_def [symmetric] L_def [symmetric] split_beta Let_def)
  moreover have "length (fst L) = length pmT \<and> drop n (fst L) = drop n pmT"
    unfolding L_def by (rule latch_elems_tail)
  ultimately show ?thesis by blast
qed

lemma index_elem_elements:
  assumes "shp_size (SRec (shape_elems n pmT))
             \<le> (if io = BoundFacility then length (fl (path @ [name])) else H5_getSize b * n)"
  shows "\<exists>pmT1 rd1 di1. index_elem io cur fl path index (CompMemberArrayInh name b n pmT rd di a)
             = Some (if 0 \<le> index \<and> index < int n then nat index else n,
                     CompMemberArrayInh name b n pmT1 rd1 di1 a) \<and>
           length pmT1 = length pmT \<and> drop n pmT1 = drop n pmT"
proof -
  from readAll_elements [where io = io and fl = fl and path = path and name = name and b = b
      and n = n and pmT = pmT and rd = rd and di = di and a = a, OF assms] obtain pmT1 rd1 where
    r: "readAll io fl path (CompMemberArrayInh name b n pmT rd di a)
          = Some (CompMemberArrayInh name b n pmT1 rd1 di a)"
    and t: "length pmT1 = length pmT" "drop n pmT1 = drop n pmT"
    by blast
  let ?pos = "if 0 \<le> index \<and> index < int n then nat index else n"
  let ?pio = "io = UnboundFacility \<or> io = BoundFacility"
  consider (first) "\<not> rd \<and> ?pio"
    | (changed) "\<not> (\<not> rd \<and> ?pio)" "?pio \<and> \<not> a" "cur \<noteq> di"
    | (same) "\<not> (\<not> rd \<and> ?pio)" "?pio \<and> \<not> a" "cur = di"
    | (none) "\<not> (\<not> rd \<and> ?pio)" "\<not> (?pio \<and> \<not> a)"
    by blast
  then show ?thesis
  proof cases
    case first
    then have "index_elem io cur fl path index (CompMemberArrayInh name b n pmT rd di a)
        = Some (?pos, CompMemberArrayInh name b n pmT1 rd1 cur a)"
      unfolding index_elem.simps Let_def r by auto
    with t show ?thesis by blast
  next
    case changed
    then have "index_elem io cur fl path index (CompMemberArrayInh name b n pmT rd di a)
        = Some (?pos, CompMemberArrayInh name b n pmT1 rd1 cur a)"
      unfolding index_elem.simps Let_def r by auto
    with t show ?thesis by blast
  next
    case same
    then have "index_elem io cur fl path index (CompMemberArrayInh name b n pmT rd di a)
        = Some (?pos, CompMemberArrayInh name b n pmT rd cur a)"
      unfolding index_elem.simps Let_def r by auto
    then show ?thesis by blast
  next
    case none
    then have "index_elem io cur fl path index (CompMemberArrayInh name b n pmT rd di a)
        = Some (?pos, CompMemberArrayInh name b n pmT rd di a)"
      unfolding index_elem.simps Let_def r by auto
    then show ?thesis by blast
  qed
qed


lemma inbounds_assign_signals:
  assumes "pmT ! i = CPH5CompType children NullFacility a'"
    and "children ! k = CompMember nm t mT True"
  shows "elem_assign fl i k other (CompMemberArrayInh name b n pmT rd di a)
           = (CompMemberArrayInh name b n
                (pmT[i := CPH5CompType (children[k := CompMember nm t other True]) NullFacility a'])
                rd di a, fl, True)"
  using assms by simp

text \<open>
  Claim C10. The constructor of an array of \<open>n\<close> records allocates \<open>n + 1\<close> objects and
  leaves the last as \<^verbatim>\<open>T()\<close> built it. For an array that has its \<open>n + 1\<close> objects, the
  last with no facility of its own, and an index outside \<open>[0, n)\<close>, \<^verbatim>\<open>operator[]\<close> returns
  the object at position \<open>n\<close>, inside the allocation, and leaves that object as it was.
  A member of it that is a value and has no array parent reads as its local value, and an
  assignment to it changes that object only: the file is as before and the array is not
  signalled. The buffer of \<^verbatim>\<open>readAll\<close> is taken to hold what the \<open>n\<close> elements latch.
\<close>

theorem spare_record:
  assumes "index < 0 \<or> int n \<le> index"
    and "length pmT = n + 1"
    and "pmT ! n = CPH5CompType children NullFacility a'"
    and "k < length children"
    and "children ! k = CompMember nm t mT False"
    and "shp_size (SRec (shape_elems n pmT))
           \<le> (if io = BoundFacility then length (fl (path @ [name])) else H5_getSize b * n)"
  shows "(length (elements_of (new_array name b n T0)) = n + 1 \<and>
          elements_of (new_array name b n T0) ! n = T0) \<and>
         (\<exists>pmT1 rd1 di1.
            index_elem io cur fl path index (CompMemberArrayInh name b n pmT rd di a)
              = Some (n, CompMemberArrayInh name b n pmT1 rd1 di1 a) \<and>
            length pmT1 = n + 1 \<and> pmT1 ! n = pmT ! n \<and>
            elem_get fl n k (CompMemberArrayInh name b n pmT1 rd1 di1 a) = mT \<and>
            elem_assign fl n k other (CompMemberArrayInh name b n pmT1 rd1 di1 a)
              = (CompMemberArrayInh name b n
                   (pmT1[n := CPH5CompType (children[k := CompMember nm t other False]) NullFacility a'])
                   rd1 di1 a, fl, False))"
proof -
  have out: "(if 0 \<le> index \<and> index < int n then nat index else n) = n"
    using assms(1) by auto
  from index_elem_elements [where io = io and fl = fl and path = path and name = name and b = b
      and n = n and pmT = pmT and rd = rd and di = di and a = a and cur = cur and index = index,
      OF assms(6)]
  obtain pmT1 rd1 di1 where
    i: "index_elem io cur fl path index (CompMemberArrayInh name b n pmT rd di a)
          = Some (n, CompMemberArrayInh name b n pmT1 rd1 di1 a)"
    and l: "length pmT1 = length pmT" and d: "drop n pmT1 = drop n pmT"
    unfolding out by blast
  have sp: "pmT1 ! n = pmT ! n"
    using d l assms(2) by (intro nth_from_drop) simp_all
  have g: "elem_get fl n k (CompMemberArrayInh name b n pmT1 rd1 di1 a) = mT"
    by (simp add: sp assms(3,5))
  have w: "elem_assign fl n k other (CompMemberArrayInh name b n pmT1 rd1 di1 a)
              = (CompMemberArrayInh name b n
                   (pmT1[n := CPH5CompType (children[k := CompMember nm t other False]) NullFacility a'])
                   rd1 di1 a, fl, False)"
    by (simp add: sp assms(3,5))
  from l assms(2) have l': "length pmT1 = n + 1" by simp
  from i l' sp g w new_array_spare [of name b n T0] show ?thesis by blast
qed

theorem spare_record_witness:
  "\<exists>pmT1 rd1 di1.
     index_elem BoundFacility [0] (\<lambda>key. ''wxyz'') [] 5 spare_arr
       = Some (2, CompMemberArrayInh ''pts'' (CompType 2 [(''x'', 0, AtomType H5T_INTEGER H5T_SGN_2 2)])
                    2 pmT1 rd1 di1 False) \<and>
     length pmT1 = 3 \<and> pmT1 ! 2 = spare_T0 \<and>
     elem_get (\<lambda>key. ''wxyz'') 2 0
       (CompMemberArrayInh ''pts'' (CompType 2 [(''x'', 0, AtomType H5T_INTEGER H5T_SGN_2 2)])
          2 pmT1 rd1 di1 False) = ''ab'' \<and>
     snd (elem_assign (\<lambda>key. ''wxyz'') 2 0 ''cd''
       (CompMemberArrayInh ''pts'' (CompType 2 [(''x'', 0, AtomType H5T_INTEGER H5T_SGN_2 2)])
          2 pmT1 rd1 di1 False)) = (\<lambda>key. ''wxyz'', False)"
proof -
  let ?x = "CompMember ''x'' (AtomType H5T_INTEGER H5T_SGN_2 2) ''ab''"
  let ?b = "CompType 2 [(''x'', 0, AtomType H5T_INTEGER H5T_SGN_2 2)]"
  let ?pmT = "[CPH5CompType [?x True] NullFacility True, CPH5CompType [?x True] NullFacility True,
               CPH5CompType [?x False] NullFacility False]"
  have r: "replicate 3 spare_T0 = [spare_T0, spare_T0, spare_T0]"
    by (simp add: numeral_3_eq_3)
  have a: "spare_arr = CompMemberArrayInh ''pts'' ?b 2 ?pmT False [] False"
    by (simp add: spare_arr_def new_array_def r) (simp add: spare_T0_def)
  have s: "?pmT ! 2 = spare_T0" by (simp add: spare_T0_def numeral_2_eq_2)
  let ?f = "\<lambda>key :: string list. ''wxyz''"
  have h1: "(5::int) < 0 \<or> int 2 \<le> 5" by simp
  have h2: "length ?pmT = 2 + 1" by simp
  have h3: "?pmT ! 2 = CPH5CompType [?x False] NullFacility False" by (simp add: numeral_2_eq_2)
  have h4: "0 < length [?x False]" by simp
  have h5: "[?x False] ! 0 = CompMember ''x'' (AtomType H5T_INTEGER H5T_SGN_2 2) ''ab'' False" by simp
  have h6: "shp_size (SRec (shape_elems 2 ?pmT))
              \<le> (if BoundFacility = BoundFacility then length (?f ([] @ [''pts''])) else H5_getSize ?b * 2)"
    by simp
  from spare_record [where cur = "[0]" and rd = False and di = "[]" and a = False
      and other = "''cd''" and ?fl = ?f, OF h1 h2 h3 h4 h5 h6]
  obtain pmT1 rd1 di1 where
    i: "index_elem BoundFacility [0] ?f [] 5 (CompMemberArrayInh ''pts'' ?b 2 ?pmT False [] False)
       = Some (2, CompMemberArrayInh ''pts'' ?b 2 pmT1 rd1 di1 False)"
    and l: "length pmT1 = 2 + 1" and p: "pmT1 ! 2 = ?pmT ! 2"
    and g: "elem_get ?f 2 0 (CompMemberArrayInh ''pts'' ?b 2 pmT1 rd1 di1 False) = ''ab''"
    and w: "elem_assign ?f 2 0 ''cd'' (CompMemberArrayInh ''pts'' ?b 2 pmT1 rd1 di1 False)
       = (CompMemberArrayInh ''pts'' ?b 2
            (pmT1[2 := CPH5CompType ([?x False][0 := CompMember ''x'' (AtomType H5T_INTEGER H5T_SGN_2 2) ''cd'' False])
                         NullFacility False]) rd1 di1 False, ?f, False)"
    by blast
  from l have l': "length pmT1 = 3" by simp
  from p s have p': "pmT1 ! 2 = spare_T0" by (simp only:)
  from w have w': "snd (elem_assign ?f 2 0 ''cd'' (CompMemberArrayInh ''pts'' ?b 2 pmT1 rd1 di1 False))
      = (?f, False)" by (simp only: snd_conv)
  from i l' p' g w' show ?thesis
    unfolding a by blast
qed

section \<open>Members the reflector does not support\<close>

lemma unknown_class_throws:
  assumes "c \<noteq> H5T_INTEGER" and "c \<noteq> H5T_FLOAT"
  shows "recurseComptype fresh arr ((name, offset, AtomType c s n) # ms) = Inl (Thrown ''BAD UNKNOWN TYPE'')"
  using assms by simp

lemma unknown_integer_throws:
  assumes "n \<notin> {1, 2, 4, 8}"
  shows "recurseComptype fresh arr ((name, offset, AtomType H5T_INTEGER s n) # ms) = Inl (Thrown ''BAD FAIL'')"
  using assms by (auto simp add: adderIf_int_def int_kinds_def)

lemma rank_not_one_dropped:
  assumes "length ds \<noteq> 1"
  shows "recurse_member fresh arr name (ArrayType b ds) = Inr None"
  using assms by simp

lemma array_of_arrays_dropped:
  "recurse_member fresh arr name (ArrayType (ArrayType b ds') ds) = Inr None"
  by simp

lemma array_of_other_class_dropped:
  assumes "c \<noteq> H5T_INTEGER" and "c \<noteq> H5T_FLOAT"
  shows "recurse_member fresh arr name (ArrayType (AtomType c s n) ds) = Inr None"
  using assms by (simp add: Let_def)

text \<open>
  Claim C9. The claim asks for a failure at a member outside the supported types, such as
  an array of rank 2. For the compound type \<open>grid_type\<close>, whose second member is a 2 by 2
  array of integers, \<^verbatim>\<open>recurseComptype\<close> returns normally and the record it has filled has
  the first member only: the array member is left out and nothing is thrown.
\<close>

theorem higher_rank_array_dropped:
  "recurseComptype fresh False grid_type
     = Inr [CompMember ''id'' (AtomType H5T_INTEGER H5T_SGN_2 4) (map fresh [0 ..< 4]) False]"
  by (simp add: grid_type_def adderIf_int_def int_kinds_def registerExternalMember_def)


end
